theory Spec2Isabelle
  imports Main
begin

section \<open>Server-side component rendering (runtime/server/render/component.ts)\<close>

text \<open>
  A shallow embedding of \<^verbatim>\<open>component.ts\<close>. JavaScript strings are lists of
  code units below 256 (\<^typ>\<open>string\<close>); the functions of other modules that
  \<^verbatim>\<open>component.ts\<close> imports are fields of the record \<open>env\<close>; a thrown value is
  an \<open>exn\<close> (an Error object or any other value, \<^verbatim>\<open>undefined\<close> included) and
  every \<^verbatim>\<open>throw\<close> of the source is an \<open>Inl\<close> result.
\<close>

subsection \<open>JavaScript strings\<close>

text \<open>The white space of \<^verbatim>\<open>\s\<close> and of \<^verbatim>\<open>String.prototype.trim\<close>, among the
  code units below 256: TAB, LF, VT, FF, CR, SPACE and NBSP.\<close>

definition isSpace :: "char \<Rightarrow> bool" where
  "isSpace c = (of_char c \<in> {9, 10, 11, 12, 13, 32, 160 :: nat})"

text \<open>\<^verbatim>\<open>\w\<close>: the word characters that \<^verbatim>\<open>\b\<close> separates from the others.\<close>

definition isWord :: "char \<Rightarrow> bool" where
  "isWord c = (let n = (of_char c :: nat) in
     (48 \<le> n \<and> n \<le> 57) \<or> (65 \<le> n \<and> n \<le> 90) \<or> (97 \<le> n \<and> n \<le> 122) \<or> n = 95)"

definition trim :: "string \<Rightarrow> string" where
  "trim s = rev (dropWhile isSpace (rev (dropWhile isSpace s)))"

text \<open>\<^verbatim>\<open>s.startsWith(p)\<close>.\<close>

fun startsWith :: "string \<Rightarrow> string \<Rightarrow> bool" where
  "startsWith s [] = True"
| "startsWith [] (p # ps) = False"
| "startsWith (c # cs) (p # ps) = (c = p \<and> startsWith cs ps)"

text \<open>\<^verbatim>\<open>s.includes(p)\<close>.\<close>

fun includesStr :: "string \<Rightarrow> string \<Rightarrow> bool" where
  "includesStr [] p = (p = [])"
| "includesStr (c # cs) p = (startsWith (c # cs) p \<or> includesStr cs p)"

text \<open>\<^verbatim>\<open>s.split('.').pop()\<close>: what follows the last dot, the whole string when it
  has none.\<close>

definition lastSegment :: "string \<Rightarrow> string" where
  "lastSegment s = rev (takeWhile (\<lambda>c. c \<noteq> CHR ''.'') (rev s))"

text \<open>\<^verbatim>\<open>s.replace(p, '')\<close> for a non-empty string pattern: the first occurrence
  goes.\<close>

fun removeFirst :: "string \<Rightarrow> string \<Rightarrow> string" where
  "removeFirst p [] = []"
| "removeFirst p (c # cs) =
     (if startsWith (c # cs) p then drop (length p) (c # cs) else c # removeFirst p cs)"

text \<open>\<^verbatim>\<open>xs.join(sep)\<close>.\<close>

fun joinWith :: "string \<Rightarrow> string list \<Rightarrow> string" where
  "joinWith sep [] = []"
| "joinWith sep [x] = x"
| "joinWith sep (x # y # ys) = x @ sep @ joinWith sep (y # ys)"

subsection \<open>sanitizeElementName\<close>

text \<open>The character class of \<^verbatim>\<open>/[&<>'"\s]+/g\<close>.\<close>

definition unsafe :: "char \<Rightarrow> bool" where
  "unsafe c = (c = CHR ''&'' \<or> c = CHR ''<'' \<or> c = CHR ''>'' \<or> c = CHR 0x27 \<or> c = CHR 0x22
     \<or> isSpace c)"

text \<open>
  \<^verbatim>\<open>if (!unsafe.test(tag)) return tag; return tag.trim().split(unsafe)[0].trim();\<close>
  The first element of the split is what precedes the first run of unsafe characters.
\<close>

definition sanitizeElementName :: "string \<Rightarrow> string" where
  "sanitizeElementName tag =
     (if \<not> list_ex unsafe tag then tag
      else trim (takeWhile (\<lambda>c. \<not> unsafe c) (trim tag)))"

subsection \<open>Values, props, slots and chunks\<close>

text \<open>A property value: \<open>JObj s\<close> is any other truthy value, \<open>s\<close> what a template
  literal makes of it.\<close>

datatype jsval = JUndefined | JNull | JBool bool | JStr string | JObj string

fun truthy :: "jsval \<Rightarrow> bool" where
  "truthy JUndefined = False"
| "truthy JNull = False"
| "truthy (JBool b) = b"
| "truthy (JStr s) = (s \<noteq> [])"
| "truthy (JObj s) = True"

fun toStr :: "jsval \<Rightarrow> string" where
  "toStr JUndefined = ''undefined''"
| "toStr JNull = ''null''"
| "toStr (JBool b) = (if b then ''true'' else ''false'')"
| "toStr (JStr s) = s"
| "toStr (JObj s) = s"

type_synonym props = "(string \<times> jsval) list"

definition getProp :: "props \<Rightarrow> string \<Rightarrow> jsval" where
  "getProp ps k = (case map_of ps k of None \<Rightarrow> JUndefined | Some v \<Rightarrow> v)"

text \<open>A thrown value: an \<^verbatim>\<open>AstroError\<close> (with whether it already has a location),
  any other Error, or a value that is no Error (\<^verbatim>\<open>throw undefined\<close>,
  \<^verbatim>\<open>throw ''\<close>).\<close>

datatype exn = JsError string | AstroErrorExn string bool | ThrownValue jsval

text \<open>\<^verbatim>\<open>e == null\<close>: what \<^verbatim>\<open>??=\<close> takes for missing.\<close>

fun nullishExn :: "exn \<Rightarrow> bool" where
  "nullishExn (ThrownValue JUndefined) = True"
| "nullishExn (ThrownValue JNull) = True"
| "nullishExn e = False"

text \<open>The thrown value as a condition: an Error object is truthy.\<close>

fun truthyExn :: "exn \<Rightarrow> bool" where
  "truthyExn (ThrownValue v) = truthy v"
| "truthyExn e = True"

datatype slot = Slot nat

type_synonym slots = "(string \<times> slot) list"

text \<open>The rendered children of \<^verbatim>\<open>renderSlots\<close>, in the order of
  \<^verbatim>\<open>Object.keys\<close>.\<close>

type_synonym children = "(string \<times> string) list"

type_synonym attrs = "(string \<times> string) list"

record hydration =
  h_directive :: string
  h_value :: jsval
  h_componentUrl :: string
  h_componentExport :: string

record extracted =
  ex_hydration :: "hydration option"
  ex_isPage :: bool
  ex_props :: props

record metadata =
  displayName :: string
  astroStaticSlot :: bool
  hydrate :: "string option"
  hydrateArgs :: jsval
  componentExport :: "string option"
  componentUrl :: "string option"

datatype instruction = DirectiveInstr hydration | OtherInstr string

text \<open>What a destination is written: a string, a marked HTML string, a render
  instruction or a Response.\<close>

datatype chunk = Text string | Markup string | Instr instruction | ResponseChunk

text \<open>\<^verbatim>\<open>String(chunk)\<close>.\<close>

fun stringOf :: "chunk \<Rightarrow> string" where
  "stringOf (Text s) = s"
| "stringOf (Markup s) = s"
| "stringOf (Instr i) = ''[object Object]''"
| "stringOf ResponseChunk = ''[object Response]''"

text \<open>\<^verbatim>\<open>chunk instanceof Response\<close>.\<close>

fun isResponse :: "chunk \<Rightarrow> bool" where
  "isResponse ResponseChunk = True"
| "isResponse c = False"

text \<open>A render instance is what its \<^verbatim>\<open>render(destination)\<close> writes, in order, and
  the value its promise rejects with, if it does.\<close>

type_synonym renderInstance = "chunk list \<times> exn option"

subsection \<open>Component values\<close>

text \<open>Reading \<^verbatim>\<open>Component[Renderer]\<close> gives a value or throws (a Proxy).\<close>

datatype marker = MarkerThrows | Marker jsval

record probes =
  rendererMarker :: marker
  isHTMLElementClass :: bool
  needsHeadRendering :: bool
  ident :: nat

text \<open>
  The kinds of value \<^verbatim>\<open>renderComponent\<close> tells apart: a falsy value that is not a
  string, a string, the Fragment symbol, a function with \<^verbatim>\<open>astro:html\<close> (given by
  what it returns for the rendered slots), an Astro component factory, any other object,
  and a promise (rejected, or resolved with a value).
\<close>

datatype component =
    Nullish
  | Str string
  | FragmentC
  | HtmlC probes "children \<Rightarrow> exn + string"
  | FactoryC probes
  | Framework probes
  | Rejected exn
  | Resolving component

fun falsy :: "component \<Rightarrow> bool" where
  "falsy Nullish = True"
| "falsy (Str s) = (s = [])"
| "falsy c = False"

fun isString :: "component \<Rightarrow> bool" where
  "isString (Str s) = True"
| "isString c = False"

fun probesOf :: "component \<Rightarrow> probes option" where
  "probesOf (HtmlC p f) = Some p"
| "probesOf (FactoryC p) = Some p"
| "probesOf (Framework p) = Some p"
| "probesOf c = None"

text \<open>\<^verbatim>\<open>Component[Renderer]\<close>, for a truthy component.\<close>

definition markerOf :: "component \<Rightarrow> marker" where
  "markerOf c = (case probesOf c of None \<Rightarrow> Marker JUndefined | Some p \<Rightarrow> rendererMarker p)"

text \<open>
  \<^verbatim>\<open>try { isTagged = Component && Component[Renderer] } catch {}\<close> followed by
  \<^verbatim>\<open>if (isTagged)\<close>.
\<close>

definition isTagged :: "component \<Rightarrow> bool" where
  "isTagged c = (\<not> falsy c \<and> (case markerOf c of MarkerThrows \<Rightarrow> False | Marker v \<Rightarrow> truthy v))"

definition componentIsHTMLElement :: "component \<Rightarrow> bool" where
  "componentIsHTMLElement c = (case probesOf c of None \<Rightarrow> False | Some p \<Rightarrow> isHTMLElementClass p)"

fun isFragmentComponent :: "component \<Rightarrow> bool" where
  "isFragmentComponent FragmentC = True"
| "isFragmentComponent c = False"

fun isHTMLComponent :: "component \<Rightarrow> bool" where
  "isHTMLComponent (HtmlC p f) = True"
| "isHTMLComponent c = False"

fun isAstroComponentFactory :: "component \<Rightarrow> bool" where
  "isAstroComponentFactory (FactoryC p) = True"
| "isAstroComponentFactory c = False"

fun isPromise :: "component \<Rightarrow> bool" where
  "isPromise (Rejected e) = True"
| "isPromise (Resolving c) = True"
| "isPromise c = False"

text \<open>\<^verbatim>\<open>!!pageComponent?.[needsHeadRenderingSymbol]\<close>.\<close>

definition nonAstroPageNeedsHeadInjection :: "component \<Rightarrow> bool" where
  "nonAstroPageNeedsHeadInjection c =
     (case probesOf c of None \<Rightarrow> False | Some p \<Rightarrow> needsHeadRendering p)"

subsection \<open>Renderers, the result context and the imported functions\<close>

record renderer =
  name :: string
  check :: "component \<Rightarrow> props \<Rightarrow> children \<Rightarrow> exn + bool"
  renderToStaticMarkup ::
    "component \<Rightarrow> props \<Rightarrow> children \<Rightarrow> metadata \<Rightarrow> exn + (string \<times> attrs option)"
  clientEntrypoint :: "string option"
  supportsAstroStaticSlot :: "bool option"

record ssrResult =
  renderers :: "renderer list"
  compressHTML :: bool

record island =
  island_props :: "(string \<times> string) list"
  island_children :: string

text \<open>An expression of a template literal: a plain string or a marked HTML string.\<close>

datatype texpr = Plain string | Marked string

text \<open>
  The functions \<^verbatim>\<open>component.ts\<close> imports, each for the \<^verbatim>\<open>result\<close> of the call.
  \<open>hasHTMLElement\<close> is \<^verbatim>\<open>typeof HTMLElement === 'function'\<close>; \<open>voidElementNames\<close> is
  the test of the regular expression of that name; \<open>renderTemplate\<close> gives the chunks
  that rendering the template result writes; \<open>createAstroComponentInstance\<close> gives
  the instance by the chunks its \<^verbatim>\<open>render\<close> writes.
\<close>

record env =
  extractDirectives :: "props \<Rightarrow> exn + extracted"
  renderSlots :: "slots \<Rightarrow> exn + (children \<times> instruction list option)"
  renderSlotToString :: "slot option \<Rightarrow> exn + string"
  hasHTMLElement :: bool
  renderHTMLElement :: "component \<Rightarrow> props \<Rightarrow> slots \<Rightarrow> exn + string"
  internalSpreadAttributes :: "props \<Rightarrow> string"
  voidElementNames :: "string \<Rightarrow> bool"
  renderTemplate :: "string list \<Rightarrow> texpr list \<Rightarrow> exn + chunk list"
  chunkToString :: "chunk \<Rightarrow> string"
  serializeProps :: "props \<Rightarrow> metadata \<Rightarrow> exn + string"
  shorthash :: "string \<Rightarrow> string"
  generateHydrateScript ::
    "renderer option \<Rightarrow> string \<Rightarrow> props \<Rightarrow> attrs option \<Rightarrow> metadata \<Rightarrow> exn + island"
  renderElement :: "string \<Rightarrow> island \<Rightarrow> string"
  maybeRenderHead :: "chunk list"
  createAstroComponentInstance ::
    "string \<Rightarrow> component \<Rightarrow> props \<Rightarrow> slots \<Rightarrow> exn + renderInstance"

subsection \<open>Errors and effects\<close>

text \<open>
  The errors \<^verbatim>\<open>component.ts\<close> throws, by their data: the two plain Errors of
  \<^verbatim>\<open>renderFrameworkComponent\<close>, the three \<^verbatim>\<open>AstroError\<close>s, and a value thrown by
  an imported function or a renderer.
\<close>

datatype error =
    UnableToRender string component
  | NoClientOnlyHint string string
  | NoMatchingRenderer string "string option" bool nat "string list"
  | UnableToRenderSSR string "string list"
  | NoClientEntrypoint string string string
  | Thrown exn

text \<open>The calls whose order and number the specification speaks of.\<close>

datatype event =
    EvCheck string
  | EvRenderToStaticMarkup string
  | EvRenderSlots
  | EvRenderSlotToString "slot option"
  | EvRenderHTMLElement

text \<open>A computation gives the calls it made, in order, and an error or a value.\<close>

type_synonym 'a eff = "event list \<times> (error + 'a)"

definition ret :: "'a \<Rightarrow> 'a eff" where
  "ret x = ([], Inr x)"

definition raise :: "error \<Rightarrow> 'a eff" where
  "raise e = ([], Inl e)"

definition call :: "event \<Rightarrow> exn + 'a \<Rightarrow> 'a eff" where
  "call ev r = ([ev], case r of Inl e \<Rightarrow> Inl (Thrown e) | Inr x \<Rightarrow> Inr x)"

definition andThen :: "'a eff \<Rightarrow> ('a \<Rightarrow> 'b eff) \<Rightarrow> 'b eff" where
  "andThen m f =
     (case m of
        (t, Inl e) \<Rightarrow> (t, Inl e)
      | (t, Inr x) \<Rightarrow> (case f x of (t', r) \<Rightarrow> (t @ t', r)))"

subsection \<open>guessRenderers\<close>

definition rendererAliases :: "(string \<times> string) list" where
  "rendererAliases = [(''solid'', ''solid-js'')]"

text \<open>\<^verbatim>\<open>componentUrl?.split('.').pop()\<close>.\<close>

definition extnameOf :: "string option \<Rightarrow> string option" where
  "extnameOf url = map_option lastSegment url"

definition guessRenderers :: "string option \<Rightarrow> string list" where
  "guessRenderers url =
     (let extname = extnameOf url in
      if extname = Some ''svelte'' then [''@astrojs/svelte'']
      else if extname = Some ''vue'' then [''@astrojs/vue'']
      else if extname = Some ''jsx'' \<or> extname = Some ''tsx'' then
        [''@astrojs/react'', ''@astrojs/preact'', ''@astrojs/solid-js'', ''@astrojs/vue (jsx)'']
      else
        [''@astrojs/react'', ''@astrojs/preact'', ''@astrojs/solid-js'', ''@astrojs/vue'',
         ''@astrojs/svelte'', ''@astrojs/lit''])"

subsection \<open>removeStaticAstroSlot\<close>

text \<open>
  Whether the pattern of \<^verbatim>\<open>ASTRO_SLOT_EXP\<close> (or of \<^verbatim>\<open>ASTRO_STATIC_SLOT_EXP\<close>, by the
  name) matches at the start of the string: a \<^verbatim>\<open><\<close>, an
  optional \<^verbatim>\<open>/\<close>, the name, a character that is no word character, and a \<^verbatim>\<open>>\<close>
  somewhere after the name.
\<close>

definition opensTag :: "string \<Rightarrow> string \<Rightarrow> bool" where
  "opensTag nm s =
     (case s of
        [] \<Rightarrow> False
      | c # rest \<Rightarrow>
          c = CHR ''<'' \<and>
          (let rest' = (case rest of [] \<Rightarrow> [] | d # ds \<Rightarrow> if d = CHR ''/'' then ds else rest) in
           startsWith rest' nm \<and>
           (case drop (length nm) rest' of
              [] \<Rightarrow> False
            | a # as \<Rightarrow> \<not> isWord a \<and> CHR ''>'' \<in> set (a # as))))"

text \<open>
  \<^verbatim>\<open>html.replace(exp, '')\<close> with the global flag, left to right: \<open>skipping\<close> holds
  inside a match, which ends with its first \<^verbatim>\<open>>\<close>.
\<close>

fun stripTags :: "string \<Rightarrow> bool \<Rightarrow> string \<Rightarrow> string" where
  "stripTags nm skipping [] = []"
| "stripTags nm True (c # cs) = (if c = CHR ''>'' then stripTags nm False cs else stripTags nm True cs)"
| "stripTags nm False (c # cs) =
     (if opensTag nm (c # cs) then stripTags nm True cs else c # stripTags nm False cs)"

definition removeStaticAstroSlot :: "string \<Rightarrow> bool \<Rightarrow> string" where
  "removeStaticAstroSlot html supportsStaticSlot =
     stripTags (if supportsStaticSlot then ''astro-static-slot'' else ''astro-slot'') False html"

subsection \<open>renderFrameworkComponent: resolving the renderer\<close>

text \<open>Lines 89 to 104: the metadata, from the display name and the extracted hydration.\<close>

definition buildMetadata :: "string \<Rightarrow> hydration option \<Rightarrow> metadata" where
  "buildMetadata dn hyd =
     (case hyd of
        None \<Rightarrow>
          \<lparr>displayName = dn, astroStaticSlot = True, hydrate = None, hydrateArgs = JUndefined,
           componentExport = None, componentUrl = None\<rparr>
      | Some h \<Rightarrow>
          \<lparr>displayName = dn, astroStaticSlot = True, hydrate = Some (h_directive h),
           hydrateArgs = h_value h, componentExport = Some (h_componentExport h),
           componentUrl = Some (h_componentUrl h)\<rparr>)"

text \<open>\<^verbatim>\<open>metadata.hydrate\<close> as a condition: set and not the empty string.\<close>

definition hydrateSet :: "metadata \<Rightarrow> bool" where
  "hydrateSet md = (case hydrate md of None \<Rightarrow> False | Some d \<Rightarrow> d \<noteq> [])"

definition validRenderers :: "renderer list \<Rightarrow> renderer list" where
  "validRenderers rs = filter (\<lambda>r. name r \<noteq> ''astro:jsx'') rs"

text \<open>
  Lines 129 to 139: the loop over the renderers. It gives the checks it called, the
  renderer it chose and the value of \<^verbatim>\<open>error\<close>, \<open>None\<close> while it is
  \<^verbatim>\<open>undefined\<close> or \<^verbatim>\<open>null\<close>: \<^verbatim>\<open>error ??= e\<close> assigns the thrown value
  unless \<^verbatim>\<open>error\<close> already holds one that is neither.
\<close>

fun checkLoop ::
  "renderer list \<Rightarrow> component \<Rightarrow> props \<Rightarrow> children \<Rightarrow> exn option
     \<Rightarrow> event list \<times> renderer option \<times> exn option" where
  "checkLoop [] C ps ch err = ([], None, err)"
| "checkLoop (r # rs) C ps ch err =
     (case check r C ps ch of
        Inr b \<Rightarrow>
          if b then ([EvCheck (name r)], Some r, err)
          else (case checkLoop rs C ps ch err of (t, res) \<Rightarrow> (EvCheck (name r) # t, res))
      | Inl e \<Rightarrow>
          (case checkLoop rs C ps ch
                  (case err of
                     None \<Rightarrow> if nullishExn e then None else Some e
                   | Some e0 \<Rightarrow> Some e0) of
             (t, res) \<Rightarrow> (EvCheck (name r) # t, res)))"

text \<open>Lines 128 to 146: the loop, and \<^verbatim>\<open>if (!renderer && error) throw error\<close>: the
  value kept is thrown when no renderer was found and the value is truthy.\<close>

definition checkRenderers ::
  "renderer list \<Rightarrow> component \<Rightarrow> props \<Rightarrow> children \<Rightarrow> renderer option eff" where
  "checkRenderers rs C ps ch =
     (case checkLoop rs C ps ch None of
        (t, None, Some e) \<Rightarrow> if truthyExn e then (t, Inl (Thrown e)) else (t, Inr None)
      | (t, r, err) \<Rightarrow> (t, Inr r))"

text \<open>Lines 123 to 126: the renderer the marker names.\<close>

definition taggedRenderer :: "renderer list \<Rightarrow> component \<Rightarrow> renderer option" where
  "taggedRenderer rs C =
     (if isTagged C then
        (case markerOf C of
           MarkerThrows \<Rightarrow> None
         | Marker rendererName \<Rightarrow> find (\<lambda>r. JStr (name r) = rendererName) rs)
      else None)"

text \<open>What the resolution of lines 111 to 183 ends with: a renderer or none, or the
  output of \<^verbatim>\<open>renderHTMLElement\<close>, which is returned at once.\<close>

datatype resolution = Resolved "renderer option" | ElementOutput string

text \<open>Lines 148 to 160: the native element that no renderer claimed.\<close>

definition elementFallback ::
  "env \<Rightarrow> component \<Rightarrow> props \<Rightarrow> slots \<Rightarrow> renderer option \<Rightarrow> resolution eff" where
  "elementFallback en C rawProps sl renderer =
     (case renderer of
        Some r \<Rightarrow> ret (Resolved (Some r))
      | None \<Rightarrow>
          if hasHTMLElement en \<and> componentIsHTMLElement C then
            andThen (call EvRenderHTMLElement (renderHTMLElement en C rawProps sl))
              (\<lambda>output. ret (ElementOutput output))
          else ret (Resolved None))"

text \<open>Lines 112 to 160, the branch \<^verbatim>\<open>metadata.hydrate !== 'only'\<close>.\<close>

definition resolveNormal ::
  "ssrResult \<Rightarrow> env \<Rightarrow> component \<Rightarrow> props \<Rightarrow> props \<Rightarrow> slots \<Rightarrow> children \<Rightarrow> resolution eff" where
  "resolveNormal result en C rawProps ps sl ch =
     andThen
       (case taggedRenderer (renderers result) C of
          Some r \<Rightarrow> ret (Some r)
        | None \<Rightarrow> checkRenderers (renderers result) C ps ch)
       (elementFallback en C rawProps sl)"

text \<open>Lines 163 to 171: the renderer named in the argument of the directive.\<close>

definition passedRenderer :: "renderer list \<Rightarrow> metadata \<Rightarrow> renderer option" where
  "passedRenderer rs md =
     (if truthy (hydrateArgs md) then
        (let passedName = hydrateArgs md;
             rendererName =
               (case passedName of
                  JStr s \<Rightarrow> (case map_of rendererAliases s of Some a \<Rightarrow> JStr a | None \<Rightarrow> passedName)
                | _ \<Rightarrow> passedName)
         in find (\<lambda>r. name r = ''@astrojs/'' @ toStr rendererName \<or> JStr (name r) = rendererName) rs)
      else None)"

text \<open>Lines 178 to 181: the first renderer named as the extension of the URL.\<close>

definition extensionRenderer :: "renderer list \<Rightarrow> metadata \<Rightarrow> renderer option" where
  "extensionRenderer rs md =
     (let extname = extnameOf (componentUrl md) in
      case filter (\<lambda>r. name r = ''@astrojs/'' @ (case extname of None \<Rightarrow> ''undefined'' | Some e \<Rightarrow> e)
                       \<or> Some (name r) = extname) rs of
        [] \<Rightarrow> None
      | r # _ \<Rightarrow> Some r)"

text \<open>Lines 162 to 182, the branch of \<^verbatim>\<open>client:only\<close>.\<close>

definition resolveOnly :: "renderer list \<Rightarrow> metadata \<Rightarrow> renderer option" where
  "resolveOnly rs md =
     (let renderer1 = passedRenderer rs md;
          renderer2 =
            (case renderer1 of
               Some r \<Rightarrow> Some r
             | None \<Rightarrow> (case validRenderers rs of [r] \<Rightarrow> Some r | _ \<Rightarrow> None))
      in case renderer2 of
           Some r \<Rightarrow> Some r
         | None \<Rightarrow> extensionRenderer rs md)"

text \<open>Lines 111 to 183.\<close>

definition resolveRenderer ::
  "ssrResult \<Rightarrow> env \<Rightarrow> metadata \<Rightarrow> component \<Rightarrow> props \<Rightarrow> props \<Rightarrow> slots \<Rightarrow> children
     \<Rightarrow> resolution eff" where
  "resolveRenderer result en md C rawProps ps sl ch =
     (if hydrate md \<noteq> Some ''only'' then resolveNormal result en C rawProps ps sl ch
      else ret (Resolved (resolveOnly (renderers result) md)))"

subsection \<open>renderFrameworkComponent: the markup\<close>

text \<open>A call of an imported function that is not recorded.\<close>

definition attempt :: "exn + 'a \<Rightarrow> 'a eff" where
  "attempt r = ([], case r of Inl e \<Rightarrow> Inl (Thrown e) | Inr x \<Rightarrow> Inr x)"

text \<open>
  The value of \<^verbatim>\<open>html\<close>: a primitive string (the initial \<^verbatim>\<open>''\<close>, the markup of
  a renderer), or the \<^verbatim>\<open>SlotString\<close> of \<^verbatim>\<open>renderSlotToString\<close> (slot.js: a
  String object, which is truthy also when its content is empty; the field
  \<open>renderSlotToString\<close> of \<open>env\<close> gives its content).
\<close>

datatype htmlValue = Primitive string | SlotString string

fun contentOf :: "htmlValue \<Rightarrow> string" where
  "contentOf (Primitive s) = s"
| "contentOf (SlotString s) = s"

text \<open>\<^verbatim>\<open>html\<close> as a condition.\<close>

fun htmlTruthy :: "htmlValue \<Rightarrow> bool" where
  "htmlTruthy (Primitive s) = (s \<noteq> [])"
| "htmlTruthy (SlotString s) = True"

text \<open>
  Lines 185 to 250: the errors when no renderer claimed the component, and the static
  markup. It gives the renderer, \<^verbatim>\<open>html\<close> and \<^verbatim>\<open>attrs\<close>.
\<close>

definition produceMarkup ::
  "ssrResult \<Rightarrow> env \<Rightarrow> metadata \<Rightarrow> component \<Rightarrow> props \<Rightarrow> slots \<Rightarrow> children \<Rightarrow> renderer option
     \<Rightarrow> (renderer option \<times> htmlValue \<times> attrs option) eff" where
  "produceMarkup result en md C ps sl ch renderer =
     (let probableRendererNames = guessRenderers (componentUrl md);
          valid = validRenderers (renderers result)
      in case renderer of
           None \<Rightarrow>
             if hydrate md = Some ''only'' then
               raise (NoClientOnlyHint (displayName md)
                        (joinWith ''|'' (map (removeFirst ''@astrojs/'') probableRendererNames)))
             else if \<not> isString C then
               (let matchingRenderers = filter (\<lambda>r. name r \<in> set probableRendererNames) valid;
                    plural = (length valid > 1)
                in case matchingRenderers of
                     [] \<Rightarrow>
                       raise (NoMatchingRenderer (displayName md) (extnameOf (componentUrl md))
                                plural (length valid) probableRendererNames)
                   | [r] \<Rightarrow>
                       andThen (call (EvRenderToStaticMarkup (name r))
                                  (renderToStaticMarkup r C ps ch md))
                         (\<lambda>(html, attrs). ret (Some r, Primitive html, attrs))
                   | _ \<Rightarrow> raise (UnableToRenderSSR (displayName md) probableRendererNames))
             else ret (None, Primitive [], None)
         | Some r \<Rightarrow>
             if hydrate md = Some ''only'' then
               andThen (call (EvRenderSlotToString (map_of sl ''fallback''))
                          (renderSlotToString en (map_of sl ''fallback'')))
                 (\<lambda>html. ret (Some r, SlotString html, None))
             else
               andThen (call (EvRenderToStaticMarkup (name r)) (renderToStaticMarkup r C ps ch md))
                 (\<lambda>(html, attrs). ret (Some r, Primitive html, attrs)))"

text \<open>\<^verbatim>\<open>!renderer.clientEntrypoint\<close>.\<close>

definition noClientEntrypoint :: "renderer \<Rightarrow> bool" where
  "noClientEntrypoint r = (case clientEntrypoint r of None \<Rightarrow> True | Some s \<Rightarrow> s = [])"

text \<open>Lines 252 to 268.\<close>

definition checkClientEntrypoint :: "string \<Rightarrow> metadata \<Rightarrow> renderer option \<Rightarrow> unit eff" where
  "checkClientEntrypoint dn md renderer =
     (case renderer of
        None \<Rightarrow> ret ()
      | Some r \<Rightarrow>
          if noClientEntrypoint r \<and> name r \<noteq> ''@astrojs/lit'' \<and> hydrateSet md then
            raise (NoClientEntrypoint dn (case hydrate md of None \<Rightarrow> [] | Some d \<Rightarrow> d) (name r))
          else ret ())"

text \<open>The third expression of the template of line 277.\<close>

definition closingOf :: "env \<Rightarrow> string \<Rightarrow> string \<Rightarrow> string" where
  "closingOf en Tag childSlots =
     (if childSlots = [] \<and> voidElementNames en Tag then ''/>''
      else ''>'' @ childSlots @ ''</'' @ Tag @ ''>'')"

text \<open>What the destination of lines 284 to 289 has collected after the chunks.\<close>

definition collect :: "env \<Rightarrow> chunk list \<Rightarrow> string" where
  "collect en chunks = concat (map (chunkToString en) (filter (\<lambda>c. \<not> isResponse c) chunks))"

text \<open>Lines 270 to 291: the custom element without a renderer. It gives \<^verbatim>\<open>html\<close>.\<close>

definition renderCustomElement ::
  "env \<Rightarrow> component \<Rightarrow> props \<Rightarrow> children \<Rightarrow> string \<Rightarrow> string eff" where
  "renderCustomElement en C ps ch html =
     (case C of
        Str s \<Rightarrow>
          if html = [] then
            (let Tag = sanitizeElementName s;
                 childSlots = concat (map snd ch)
             in andThen
                  (attempt (renderTemplate en [''<'', [], [], []]
                     [Plain Tag, Marked (internalSpreadAttributes en ps),
                      Marked (closingOf en Tag childSlots)]))
                  (\<lambda>chunks. ret (collect en chunks)))
          else ret html
      | _ \<Rightarrow> ret html)"

text \<open>
  Lines 270 to 291 on the value of \<^verbatim>\<open>html\<close>: \<^verbatim>\<open>!html\<close> is false for a String
  object, so the block runs for a primitive empty string only. It gives the content of
  \<^verbatim>\<open>html\<close>.
\<close>

definition customElementStep ::
  "env \<Rightarrow> component \<Rightarrow> props \<Rightarrow> children \<Rightarrow> htmlValue \<Rightarrow> string eff" where
  "customElementStep en C ps ch html =
     (case html of
        Primitive s \<Rightarrow> renderCustomElement en C ps ch s
      | SlotString s \<Rightarrow> ret s)"

text \<open>\<^verbatim>\<open>renderer?.ssr?.supportsAstroStaticSlot\<close> as a condition.\<close>

definition supportsStatic :: "renderer option \<Rightarrow> bool" where
  "supportsStatic renderer =
     (case renderer of None \<Rightarrow> False | Some r \<Rightarrow> supportsAstroStaticSlot r = Some True)"

definition instructionChunks :: "instruction list option \<Rightarrow> chunk list" where
  "instructionChunks slotInstructions =
     (case slotInstructions of None \<Rightarrow> [] | Some is \<Rightarrow> map Instr is)"

text \<open>Lines 293 to 313: what the instance writes when there is no hydration.\<close>

definition staticChunks ::
  "bool \<Rightarrow> renderer option \<Rightarrow> string \<Rightarrow> instruction list option \<Rightarrow> chunk list" where
  "staticChunks isPage renderer html slotInstructions =
     instructionChunks slotInstructions @
     (if isPage \<or> map_option name renderer = Some ''astro:jsx'' then [Text html]
      else if html \<noteq> [] then [Markup (removeStaticAstroSlot html (supportsStatic renderer))]
      else [])"

subsection \<open>renderFrameworkComponent: the island\<close>

text \<open>The hash of lines 316 to 321, given what \<^verbatim>\<open>serializeProps\<close> returned.\<close>

definition astroIdOf :: "env \<Rightarrow> string \<Rightarrow> string \<Rightarrow> string \<Rightarrow> string \<Rightarrow> string" where
  "astroIdOf en exportValue url html serialized =
     shorthash en (''<!--'' @ exportValue @ '':'' @ url @ ''-->'' @ [CHR 0x0A] @ html @ [CHR 0x0A]
                   @ serialized)"

text \<open>
  Lines 315 to 321: \<^verbatim>\<open>astroId\<close>. Reading \<^verbatim>\<open>value\<close> of an undefined
  \<^verbatim>\<open>componentExport\<close> is a TypeError; an undefined URL reads \<^verbatim>\<open>undefined\<close>.
\<close>

definition astroIdFor :: "env \<Rightarrow> metadata \<Rightarrow> props \<Rightarrow> string \<Rightarrow> exn + string" where
  "astroIdFor en md ps html =
     (case componentExport md of
        None \<Rightarrow> Inl (JsError ''TypeError'')
      | Some exportValue \<Rightarrow>
          (case serializeProps en ps md of
             Inl e \<Rightarrow> Inl e
           | Inr serialized \<Rightarrow>
               Inr (astroIdOf en exportValue
                      (case componentUrl md of None \<Rightarrow> ''undefined'' | Some u \<Rightarrow> u)
                      html serialized)))"

text \<open>Lines 333 to 337.\<close>

definition slotTagName :: "renderer option \<Rightarrow> metadata \<Rightarrow> string" where
  "slotTagName renderer md =
     (if supportsStatic renderer then (if hydrateSet md then ''astro-slot'' else ''astro-static-slot'')
      else ''astro-slot'')"

text \<open>Line 338.\<close>

definition expectedHTML :: "string \<Rightarrow> string \<Rightarrow> string" where
  "expectedHTML tagName key =
     (if key = ''default'' then ''<'' @ tagName @ ''>''
      else ''<'' @ tagName @ '' name='' @ [CHR 0x22] @ key @ [CHR 0x22] @ ''>'')"

text \<open>Lines 329 to 346.\<close>

definition unrenderedSlots :: "renderer option \<Rightarrow> metadata \<Rightarrow> string \<Rightarrow> children \<Rightarrow> string list" where
  "unrenderedSlots renderer md html ch =
     (if html \<noteq> [] then
        filter (\<lambda>key. \<not> includesStr html (expectedHTML (slotTagName renderer md) key)) (map fst ch)
      else map fst ch)"

text \<open>
  Lines 329 to 346 on the value of \<^verbatim>\<open>html\<close>, where \<^verbatim>\<open>if (html)\<close> holds for an
  empty String object too.
\<close>

definition unrenderedSlotsOf ::
  "renderer option \<Rightarrow> metadata \<Rightarrow> htmlValue \<Rightarrow> children \<Rightarrow> string list" where
  "unrenderedSlotsOf renderer md html ch =
     (if htmlTruthy html then
        filter (\<lambda>key. \<not> includesStr (contentOf html) (expectedHTML (slotTagName renderer md) key))
          (map fst ch)
      else map fst ch)"

text \<open>\<^verbatim>\<open>children[key]\<close> in a template literal.\<close>

definition childOf :: "children \<Rightarrow> string \<Rightarrow> string" where
  "childOf ch key = (case map_of ch key of None \<Rightarrow> ''undefined'' | Some v \<Rightarrow> v)"

text \<open>Lines 352 to 354.\<close>

definition slotTemplate :: "children \<Rightarrow> string \<Rightarrow> string" where
  "slotTemplate ch key =
     ''<template data-astro-template''
     @ (if key \<noteq> ''default'' then ''='' @ [CHR 0x22] @ key @ [CHR 0x22] else [])
     @ ''>'' @ childOf ch key @ ''</template>''"

text \<open>Lines 347 to 359: \<^verbatim>\<open>island.children\<close>.\<close>

definition islandChildren :: "renderer option \<Rightarrow> metadata \<Rightarrow> string \<Rightarrow> children \<Rightarrow> string" where
  "islandChildren renderer md html ch =
     html @ concat (map (slotTemplate ch) (unrenderedSlots renderer md html ch))"

text \<open>\<^verbatim>\<open>obj[k] = v\<close> on an object given by its entries.\<close>

definition setProp :: "(string \<times> string) list \<Rightarrow> string \<Rightarrow> string \<Rightarrow> (string \<times> string) list" where
  "setProp ps k v =
     (if k \<in> fst ` set ps then map (\<lambda>(k', v'). if k' = k then (k', v) else (k', v')) ps
      else ps @ [(k, v)])"

text \<open>Lines 359 to 363.\<close>

definition hostIsland :: "island \<Rightarrow> string \<Rightarrow> island" where
  "hostIsland isle content =
     (if content \<noteq> [] then
        isle\<lparr>island_children := content, island_props := setProp (island_props isle) ''await-children'' []\<rparr>
      else isle\<lparr>island_children := content\<rparr>)"

text \<open>Lines 315 to 376.\<close>

definition renderIsland ::
  "env \<Rightarrow> metadata \<Rightarrow> hydration \<Rightarrow> renderer option \<Rightarrow> props \<Rightarrow> attrs option \<Rightarrow> children
     \<Rightarrow> instruction list option \<Rightarrow> string \<Rightarrow> renderInstance eff" where
  "renderIsland en md h renderer ps attrs ch slotInstructions html =
     andThen (attempt (astroIdFor en md ps html))
       (\<lambda>astroId.
          andThen (attempt (generateHydrateScript en renderer astroId ps attrs md))
            (\<lambda>isle.
               ret (instructionChunks slotInstructions
                    @ [Instr (DirectiveInstr h),
                       Markup (renderElement en ''astro-island''
                                 (hostIsland isle (islandChildren renderer md html ch)))],
                    None)))"

subsection \<open>renderFrameworkComponent\<close>

text \<open>What lines 83 to 250 end with: the output of \<^verbatim>\<open>renderHTMLElement\<close>, or the
  renderer, \<^verbatim>\<open>html\<close> and \<^verbatim>\<open>attrs\<close>.\<close>

datatype rendered = Early string | Rendered "renderer option" htmlValue "attrs option"

text \<open>
  Lines 83 to 250: the check of the component, the directives, the slots, the renderer
  and the static markup. It gives what was extracted, \<^verbatim>\<open>children\<close>,
  \<^verbatim>\<open>slotInstructions\<close> and what was rendered.
\<close>

definition resolveAndRender ::
  "ssrResult \<Rightarrow> env \<Rightarrow> string \<Rightarrow> component \<Rightarrow> props \<Rightarrow> slots
     \<Rightarrow> (extracted \<times> children \<times> instruction list option \<times> rendered) eff" where
  "resolveAndRender result en dn C rawProps sl =
     (if falsy C \<and> \<not> truthy (getProp rawProps ''client:only'') then raise (UnableToRender dn C)
      else
        andThen (attempt (extractDirectives en rawProps))
          (\<lambda>ex.
             let md = buildMetadata dn (ex_hydration ex);
                 ps = ex_props ex
             in andThen (call EvRenderSlots (renderSlots en sl))
                  (\<lambda>(ch, slotInstructions).
                     andThen (resolveRenderer result en md C rawProps ps sl ch)
                       (\<lambda>res.
                          case res of
                            ElementOutput output \<Rightarrow> ret (ex, ch, slotInstructions, Early output)
                          | Resolved renderer0 \<Rightarrow>
                              andThen (produceMarkup result en md C ps sl ch renderer0)
                                (\<lambda>(renderer, html0, attrs).
                                   ret (ex, ch, slotInstructions, Rendered renderer html0 attrs))))))"

text \<open>
  Lines 155 to 159 and 252 to 376: the instance returned for what was rendered, after
  the check of the client entrypoint and the markup of a custom element. From line 293
  on \<^verbatim>\<open>html\<close> is read by its content: the test of line 304 asks for a non-empty
  content, and for an empty String object the loop of line 332 gives every key, as
  line 345 does (\<open>unrenderedSlotsOf_content\<close> below).
\<close>

definition validateAndEmit ::
  "env \<Rightarrow> string \<Rightarrow> component \<Rightarrow> extracted \<times> children \<times> instruction list option \<times> rendered
     \<Rightarrow> renderInstance eff" where
  "validateAndEmit en dn C st =
     (case st of
        (ex, ch, slotInstructions, r) \<Rightarrow>
          (case r of
             Early output \<Rightarrow> ret ([Text output], None)
           | Rendered renderer html0 attrs \<Rightarrow>
               (let md = buildMetadata dn (ex_hydration ex);
                    ps = ex_props ex
                in andThen (checkClientEntrypoint dn md renderer)
                     (\<lambda>u.
                        andThen (customElementStep en C ps ch html0)
                          (\<lambda>html.
                             case ex_hydration ex of
                               None \<Rightarrow>
                                 ret (staticChunks (ex_isPage ex) renderer html slotInstructions,
                                      None)
                             | Some h \<Rightarrow>
                                 renderIsland en md h renderer ps attrs ch slotInstructions
                                   html)))))"

text \<open>Lines 76 to 377.\<close>

definition renderFrameworkComponent ::
  "ssrResult \<Rightarrow> env \<Rightarrow> string \<Rightarrow> component \<Rightarrow> props \<Rightarrow> slots \<Rightarrow> renderInstance eff" where
  "renderFrameworkComponent result en dn C rawProps sl =
     andThen (resolveAndRender result en dn C rawProps sl) (validateAndEmit en dn C)"

subsection \<open>renderComponent\<close>

text \<open>Lines 385 to 396. A string is never \<^verbatim>\<open>null\<close>, so the instance writes the
  rendered slot.\<close>

definition renderFragmentComponent :: "env \<Rightarrow> slots \<Rightarrow> renderInstance eff" where
  "renderFragmentComponent en sl =
     andThen (call (EvRenderSlotToString (map_of sl ''default''))
                (renderSlotToString en (map_of sl ''default'')))
       (\<lambda>children. ret ([Text children], None))"

text \<open>Lines 398 to 414.\<close>

definition renderHTMLComponent :: "env \<Rightarrow> component \<Rightarrow> props \<Rightarrow> slots \<Rightarrow> renderInstance eff" where
  "renderHTMLComponent en C ps sl =
     andThen (call EvRenderSlots (renderSlots en sl))
       (\<lambda>(ch, slotInstructions).
          andThen (attempt (case C of HtmlC p f \<Rightarrow> f ch | _ \<Rightarrow> Inl (JsError ''TypeError'')))
            (\<lambda>html.
               let hydrationHtml =
                     (case slotInstructions of
                        None \<Rightarrow> []
                      | Some is \<Rightarrow> concat (map (\<lambda>i. chunkToString en (Instr i)) is))
               in ret ([Markup (hydrationHtml @ html)], None)))"

text \<open>Lines 416 to 447: the chunks of the instance reach the destination in the order
  the instance wrote them, first the buffered ones.\<close>

definition renderAstroComponent ::
  "env \<Rightarrow> string \<Rightarrow> component \<Rightarrow> props \<Rightarrow> slots \<Rightarrow> renderInstance eff" where
  "renderAstroComponent en dn C ps sl = attempt (createAstroComponentInstance en dn C ps sl)"

text \<open>\<^verbatim>\<open>await Component\<close>.\<close>

fun awaitComponent :: "component \<Rightarrow> exn + component" where
  "awaitComponent (Rejected e) = Inl e"
| "awaitComponent (Resolving c) = awaitComponent c"
| "awaitComponent c = Inr c"

text \<open>Lines 449 to 474.\<close>

definition renderComponent ::
  "ssrResult \<Rightarrow> env \<Rightarrow> string \<Rightarrow> component \<Rightarrow> props \<Rightarrow> slots \<Rightarrow> renderInstance eff" where
  "renderComponent result en dn C0 ps sl =
     andThen (attempt (if isPromise C0 then awaitComponent C0 else Inr C0))
       (\<lambda>C.
          if isFragmentComponent C then renderFragmentComponent en sl
          else if isHTMLComponent C then renderHTMLComponent en C ps sl
          else if isAstroComponentFactory C then renderAstroComponent en dn C ps sl
          else renderFrameworkComponent result en dn C ps sl)"

subsection \<open>renderComponentToString\<close>

definition lowerChar :: "char \<Rightarrow> char" where
  "lowerChar c =
     (let n = (of_char c :: nat) in if 65 \<le> n \<and> n \<le> 90 then char_of (n + 32) else c)"

text \<open>The test of line 503: the pattern occurs somewhere in the string, in any case of
  its letters.\<close>

definition doctypeTest :: "string \<Rightarrow> bool" where
  "doctypeTest s = includesStr (map lowerChar s) ''<!doctype html''"

text \<open>Line 504.\<close>

definition doctypeOf :: "ssrResult \<Rightarrow> string" where
  "doctypeOf result =
     (if compressHTML result then ''<!DOCTYPE html>'' else ''<!DOCTYPE html>'' @ [CHR 0x0A])"

text \<open>
  Lines 499 to 513: \<^verbatim>\<open>destination.write\<close>, on the state of \<^verbatim>\<open>str\<close> and
  \<^verbatim>\<open>renderedFirstPageChunk\<close>.
\<close>

definition writeChunk ::
  "ssrResult \<Rightarrow> env \<Rightarrow> bool \<Rightarrow> string \<Rightarrow> string \<times> bool \<Rightarrow> chunk \<Rightarrow> string \<times> bool" where
  "writeChunk result en isPage head st chunk =
     (case st of
        (str, renderedFirstPageChunk) \<Rightarrow>
          (let st1 =
                 (if isPage \<and> \<not> renderedFirstPageChunk then
                    (if \<not> doctypeTest (stringOf chunk) then str @ doctypeOf result @ head else str,
                     True)
                  else (str, renderedFirstPageChunk))
           in if isResponse chunk then st1
              else (fst st1 @ chunkToString en chunk, snd st1)))"

text \<open>\<^verbatim>\<open>AstroError.is(e) && !e.loc\<close>.\<close>

fun needsLocation :: "error \<Rightarrow> bool" where
  "needsLocation (NoClientOnlyHint d h) = True"
| "needsLocation (NoMatchingRenderer d e p n ns) = True"
| "needsLocation (NoClientEntrypoint d h n) = True"
| "needsLocation (Thrown (AstroErrorExn m hasLoc)) = (\<not> hasLoc)"
| "needsLocation e = False"

text \<open>Lines 518 to 528: the error, with the file of \<^verbatim>\<open>setLocation\<close> when it was
  called (\<^verbatim>\<open>route?.component\<close>).\<close>

definition locate :: "string option \<Rightarrow> error \<Rightarrow> error \<times> string option option" where
  "locate route e = (e, if needsLocation e then Some route else None)"

text \<open>Lines 490 to 495: \<^verbatim>\<open>head\<close>.\<close>

definition headOf :: "env \<Rightarrow> component \<Rightarrow> string" where
  "headOf en C =
     (if nonAstroPageNeedsHeadInjection C then concat (map (chunkToString en) (maybeRenderHead en))
      else [])"

text \<open>Lines 476 to 531.\<close>

definition renderComponentToString ::
  "ssrResult \<Rightarrow> env \<Rightarrow> string \<Rightarrow> component \<Rightarrow> props \<Rightarrow> slots \<Rightarrow> bool \<Rightarrow> string option
     \<Rightarrow> event list \<times> ((error \<times> string option option) + string)" where
  "renderComponentToString result en dn C ps sl isPage route =
     (let head = headOf en C
      in case renderComponent result en dn C ps sl of
           (t, Inl e) \<Rightarrow> (t, Inl (locate route e))
         | (t, Inr (chunks, rejection)) \<Rightarrow>
             (case rejection of
                Some x \<Rightarrow> (t, Inl (locate route (Thrown x)))
              | None \<Rightarrow>
                  (t, Inr (fst (foldl (writeChunk result en isPage head) ([], False) chunks)))))"

section \<open>The vocabulary of the specification\<close>

text \<open>A renderer claims the component when its capability check returns true.\<close>

definition claimsIt :: "component \<Rightarrow> props \<Rightarrow> children \<Rightarrow> renderer \<Rightarrow> bool" where
  "claimsIt C ps ch r = (check r C ps ch = Inr True)"

definition thrownBy :: "component \<Rightarrow> props \<Rightarrow> children \<Rightarrow> renderer \<Rightarrow> exn option" where
  "thrownBy C ps ch r = (case check r C ps ch of Inl e \<Rightarrow> Some e | Inr b \<Rightarrow> None)"

text \<open>The exception of the first renderer of the list whose check throws.\<close>

definition firstThrown :: "component \<Rightarrow> props \<Rightarrow> children \<Rightarrow> renderer list \<Rightarrow> exn option" where
  "firstThrown C ps ch rs =
     (case List.map_filter (thrownBy C ps ch) rs of [] \<Rightarrow> None | e # es \<Rightarrow> Some e)"

text \<open>The first thrown value, in the order of the list, that is neither
  \<^verbatim>\<open>undefined\<close> nor \<^verbatim>\<open>null\<close>.\<close>

definition firstKept :: "component \<Rightarrow> props \<Rightarrow> children \<Rightarrow> renderer list \<Rightarrow> exn option" where
  "firstKept C ps ch rs =
     (case filter (\<lambda>e. \<not> nullishExn e) (List.map_filter (thrownBy C ps ch) rs) of
        [] \<Rightarrow> None
      | e # es \<Rightarrow> Some e)"

text \<open>The renderers up to and including the first that claims the component.\<close>

definition examined :: "component \<Rightarrow> props \<Rightarrow> children \<Rightarrow> renderer list \<Rightarrow> renderer list" where
  "examined C ps ch rs =
     takeWhile (\<lambda>r. \<not> claimsIt C ps ch r) rs @ take 1 (dropWhile (\<lambda>r. \<not> claimsIt C ps ch r) rs)"

text \<open>
  The marker a component carries: the component is truthy, reading the marker does not
  throw, and the value read is truthy.
\<close>

definition carriedMarker :: "component \<Rightarrow> jsval option" where
  "carriedMarker C =
     (if falsy C then None
      else case markerOf C of MarkerThrows \<Rightarrow> None | Marker v \<Rightarrow> if truthy v then Some v else None)"

text \<open>The alias table, and a renderer named \<open>n\<close>, with the scope or bare.\<close>

definition aliasOf :: "string \<Rightarrow> string" where
  "aliasOf n = (if n = ''solid'' then ''solid-js'' else n)"

definition namedAs :: "string \<Rightarrow> renderer \<Rightarrow> bool" where
  "namedAs n r = (name r = ''@astrojs/'' @ n \<or> name r = n)"

text \<open>The built-in pass-through renderer.\<close>

definition passThrough :: "renderer \<Rightarrow> bool" where
  "passThrough r = (name r = ''astro:jsx'')"

text \<open>
  The renderer that the argument of \<^verbatim>\<open>client:only\<close> names: a string is looked up
  through the alias table, with the scope or bare; any other truthy value by its
  string form, with the scope.
\<close>

definition namedRenderer :: "renderer list \<Rightarrow> jsval \<Rightarrow> renderer option" where
  "namedRenderer rs v =
     (case v of
        JStr n \<Rightarrow> if n = [] then None else find (namedAs (aliasOf n)) rs
      | _ \<Rightarrow> if truthy v then find (\<lambda>r. name r = ''@astrojs/'' @ toStr v) rs else None)"

text \<open>The string \<open>p\<close> occurs in the string \<open>s\<close>.\<close>

definition occursIn :: "string \<Rightarrow> string \<Rightarrow> bool" where
  "occursIn p s = (\<exists>pre post. s = pre @ p @ post)"

text \<open>
  The opening tag of the marker of a slot: \<^verbatim>\<open>astro-static-slot\<close> when the renderer
  supports static slot markers and no hydration directive is set, else
  \<^verbatim>\<open>astro-slot\<close>; with the name of the slot unless it is the default slot.
\<close>

definition markerTag :: "renderer option \<Rightarrow> metadata \<Rightarrow> string \<Rightarrow> string" where
  "markerTag renderer md key =
     (let tag = (if supportsStatic renderer \<and> \<not> hydrateSet md then ''astro-static-slot''
                 else ''astro-slot'')
      in if key = ''default'' then ''<'' @ tag @ ''>''
         else ''<'' @ tag @ '' name='' @ [CHR 0x22] @ key @ [CHR 0x22] @ ''>'')"

text \<open>The inert template that holds the content of an unrendered slot.\<close>

definition inertTemplate :: "string \<Rightarrow> string \<Rightarrow> string" where
  "inertTemplate key content =
     (if key = ''default'' then ''<template data-astro-template>'' @ content @ ''</template>''
      else ''<template data-astro-template='' @ [CHR 0x22] @ key @ [CHR 0x22] @ ''>'' @ content
           @ ''</template>'')"


text \<open>The computation does not fail with the error of the missing client entrypoint.\<close>

definition neverNoClientEntrypoint :: "'a eff \<Rightarrow> bool" where
  "neverNoClientEntrypoint m = (\<forall>a b c. snd m \<noteq> Inl (NoClientEntrypoint a b c))"

text \<open>The string starts with a doctype, in any case of its letters.\<close>

definition startsWithDoctype :: "string \<Rightarrow> bool" where
  "startsWithDoctype s = startsWith (map lowerChar s) ''<!doctype html''"

text \<open>The computation makes none of the recorded calls.\<close>

definition silent :: "'a eff \<Rightarrow> bool" where
  "silent m = (fst m = [])"

section \<open>Sample renderers and collaborators\<close>

text \<open>A small registry and simple collaborators, on which the theorems are run.\<close>

fun interleave :: "string list \<Rightarrow> texpr list \<Rightarrow> chunk list" where
  "interleave (p # ps) (e # es) =
     Markup p # (case e of Plain s \<Rightarrow> Text s | Marked s \<Rightarrow> Markup s) # interleave ps es"
| "interleave ps [] = map Markup ps"
| "interleave [] es = []"

definition sampleExtract :: "props \<Rightarrow> exn + extracted" where
  "sampleExtract ps =
     (let directives = filter (\<lambda>(k, v). startsWith k ''client:'' \<and> k \<noteq> ''client:component-path''
                                  \<and> k \<noteq> ''client:component-export'') ps
      in Inr \<lparr>ex_hydration =
                (case directives of
                   [] \<Rightarrow> None
                 | (k, v) # rest \<Rightarrow>
                     Some \<lparr>h_directive = drop 7 k, h_value = v,
                           h_componentUrl = toStr (getProp ps ''client:component-path''),
                           h_componentExport = toStr (getProp ps ''client:component-export'')\<rparr>),
              ex_isPage = False,
              ex_props = filter (\<lambda>(k, v). \<not> startsWith k ''client:'') ps\<rparr>)"

definition sampleEnv :: env where
  "sampleEnv =
     \<lparr>extractDirectives = sampleExtract,
      renderSlots = (\<lambda>sl. Inr (map (\<lambda>(k, s). (k, ''<i>'' @ k @ ''</i>'')) sl, None)),
      renderSlotToString = (\<lambda>s. Inr (case s of None \<Rightarrow> [] | Some s' \<Rightarrow> ''<p>hi</p>'')),
      hasHTMLElement = False,
      renderHTMLElement = (\<lambda>C ps sl. Inr []),
      internalSpreadAttributes =
        (\<lambda>ps. concat (map (\<lambda>(k, v). '' '' @ k @ ''='' @ [CHR 0x22] @ toStr v @ [CHR 0x22]) ps)),
      voidElementNames = (\<lambda>t. t \<in> set [''br'', ''hr'', ''img'', ''input'', ''meta'']),
      renderTemplate = (\<lambda>parts es. Inr (interleave parts es)),
      chunkToString = (\<lambda>c. case c of Text s \<Rightarrow> s | Markup s \<Rightarrow> s | _ \<Rightarrow> []),
      serializeProps = (\<lambda>ps md. Inr (concat (map (\<lambda>(k, v). k @ ''='' @ toStr v @ '';'') ps))),
      shorthash = (\<lambda>s. take 8 (rev s)),
      generateHydrateScript =
        (\<lambda>r astroId ps attrs md. Inr \<lparr>island_props = [(''uid'', astroId)], island_children = []\<rparr>),
      renderElement =
        (\<lambda>tag isle. ''<'' @ tag @ ''>'' @ island_children isle @ ''</'' @ tag @ ''>''),
      maybeRenderHead = [Markup ''<meta charset=utf-8>''],
      createAstroComponentInstance = (\<lambda>dn C ps sl. Inr ([Markup ''<div></div>''], None))\<rparr>"

text \<open>A renderer whose check depends on the identity of the component.\<close>

definition sampleRenderer :: "string \<Rightarrow> (nat \<Rightarrow> exn + bool) \<Rightarrow> renderer" where
  "sampleRenderer n chk =
     \<lparr>name = n,
      check = (\<lambda>C ps ch. case C of Framework p \<Rightarrow> chk (ident p) | _ \<Rightarrow> Inr False),
      renderToStaticMarkup = (\<lambda>C ps ch md. Inr (''<div>'' @ n @ ''</div>'', None)),
      clientEntrypoint = Some (n @ ''/client.js''),
      supportsAstroStaticSlot = Some True\<rparr>"

definition sampleComponent :: "nat \<Rightarrow> marker \<Rightarrow> component" where
  "sampleComponent i m =
     Framework \<lparr>rendererMarker = m, isHTMLElementClass = False, needsHeadRendering = False, ident = i\<rparr>"

text \<open>React claims component 1, Vue component 2; both throw on component 3.\<close>

definition reactCheck :: "nat \<Rightarrow> exn + bool" where
  "reactCheck i = (if i = 1 then Inr True else if i = 3 then Inl (JsError ''react'') else Inr False)"

definition vueCheck :: "nat \<Rightarrow> exn + bool" where
  "vueCheck i = (if i = 2 then Inr True else if i = 3 then Inl (JsError ''vue'') else Inr False)"

definition sampleResult :: ssrResult where
  "sampleResult =
     \<lparr>renderers = [sampleRenderer ''@astrojs/react'' reactCheck, sampleRenderer ''@astrojs/vue'' vueCheck],
      compressHTML = False\<rparr>"

text \<open>A \<^verbatim>\<open>client:only\<close> directive, and a registry with the pass-through renderer
  and one other.\<close>

definition onlyHydration :: "jsval \<Rightarrow> string \<Rightarrow> hydration" where
  "onlyHydration v url =
     \<lparr>h_directive = ''only'', h_value = v, h_componentUrl = url, h_componentExport = ''default''\<rparr>"

definition solidResult :: ssrResult where
  "solidResult =
     \<lparr>renderers = [sampleRenderer ''astro:jsx'' reactCheck, sampleRenderer ''@astrojs/solid-js'' vueCheck],
      compressHTML = True\<rparr>"

text \<open>A \<^verbatim>\<open>client:load\<close> directive, and markup with the marker of slot \<^verbatim>\<open>a\<close>.\<close>

definition loadHydration :: hydration where
  "loadHydration =
     \<lparr>h_directive = ''load'', h_value = JBool True, h_componentUrl = ''/src/Card.vue'',
      h_componentExport = ''default''\<rparr>"

definition cardHtml :: string where
  "cardHtml = ''<div><astro-slot name='' @ [CHR 0x22] @ ''a'' @ [CHR 0x22] @ ''>A</astro-slot></div>''"

text \<open>A second directive for the same component, a renderer without a client
  entrypoint that claims every component, and props with a \<^verbatim>\<open>client:load\<close>
  directive.\<close>

definition idleHydration :: hydration where
  "idleHydration =
     \<lparr>h_directive = ''idle'', h_value = JBool True, h_componentUrl = ''/src/Card.vue'',
      h_componentExport = ''default''\<rparr>"

definition bareRenderer :: "string \<Rightarrow> renderer" where
  "bareRenderer n = (sampleRenderer n (\<lambda>i. Inr True))\<lparr>clientEntrypoint := None\<rparr>"

definition loadProps :: props where
  "loadProps =
     [(''title'', JStr ''x''), (''client:load'', JBool True),
      (''client:component-path'', JStr ''/src/Card.vue''), (''client:component-export'', JStr ''default'')]"

text \<open>Collaborators whose slots render a page that begins with a line break.\<close>

definition pageEnv :: env where
  "pageEnv = sampleEnv\<lparr>renderSlotToString := (\<lambda>s. Inr (CHR 0x0A # ''<!DOCTYPE html><p>hi</p>''))\<rparr>"

text \<open>Props with a \<^verbatim>\<open>client:only\<close> directive.\<close>

definition onlyProps :: props where
  "onlyProps =
     [(''class'', JStr ''x''), (''client:only'', JStr ''vue''),
      (''client:component-path'', JStr ''/src/Card.vue''), (''client:component-export'', JStr ''default'')]"

text \<open>Checks that throw \<^verbatim>\<open>undefined\<close> and the empty string on component 3.\<close>

definition undefCheck :: "nat \<Rightarrow> exn + bool" where
  "undefCheck i = (if i = 3 then Inl (ThrownValue JUndefined) else Inr False)"

definition emptyCheck :: "nat \<Rightarrow> exn + bool" where
  "emptyCheck i = (if i = 3 then Inl (ThrownValue (JStr [])) else Inr False)"

definition undefResult :: ssrResult where
  "undefResult =
     \<lparr>renderers = [sampleRenderer ''@astrojs/react'' undefCheck, sampleRenderer ''@astrojs/vue'' vueCheck],
      compressHTML = False\<rparr>"

definition emptyResult :: ssrResult where
  "emptyResult =
     \<lparr>renderers = [sampleRenderer ''@astrojs/react'' emptyCheck], compressHTML = False\<rparr>"

text \<open>A renderer without a client entrypoint whose static markup throws.\<close>

definition throwingRenderer :: "string \<Rightarrow> renderer" where
  "throwingRenderer n =
     (bareRenderer n)\<lparr>renderToStaticMarkup := (\<lambda>C ps ch md. Inl (JsError ''boom''))\<rparr>"

section \<open>Renderer resolution\<close>

subsection \<open>The capability checks\<close>

lemma checkLoop_spec:
  "checkLoop rs C ps ch err =
     (map (\<lambda>r. EvCheck (name r)) (examined C ps ch rs),
      find (claimsIt C ps ch) rs,
      case err of
        Some e \<Rightarrow> Some e
      | None \<Rightarrow> firstKept C ps ch (takeWhile (\<lambda>r. \<not> claimsIt C ps ch r) rs))"
proof (induction rs arbitrary: err)
  case Nil
  show ?case by (simp add: examined_def firstKept_def split: option.splits)
next
  case (Cons r rs)
  show ?case
  proof (cases "check r C ps ch")
    case (Inl e)
    then show ?thesis
      using Cons.IH [of "case err of None \<Rightarrow> if nullishExn e then None else Some e | Some e0 \<Rightarrow> Some e0"]
      by (simp add: examined_def firstKept_def claimsIt_def thrownBy_def split: option.splits)
  next
    case (Inr b)
    then show ?thesis
      using Cons.IH [of err]
      by (cases b) (simp_all add: examined_def firstKept_def claimsIt_def thrownBy_def
                      split: option.splits)
  qed
qed

lemma find_None_takeWhile: "find P xs = None \<Longrightarrow> takeWhile (\<lambda>x. \<not> P x) xs = xs"
  by (induction xs) (auto split: if_splits)

lemma checkRenderers_spec:
  "checkRenderers rs C ps ch =
     (map (\<lambda>r. EvCheck (name r)) (examined C ps ch rs),
      case find (claimsIt C ps ch) rs of
        Some r \<Rightarrow> Inr (Some r)
      | None \<Rightarrow>
          (case firstKept C ps ch rs of
             Some e \<Rightarrow> if truthyExn e then Inl (Thrown e) else Inr None
           | None \<Rightarrow> Inr None))"
  by (simp add: checkRenderers_def checkLoop_spec find_None_takeWhile split: option.splits)

lemma in_map_filter: "y \<in> set (List.map_filter f xs) \<longleftrightarrow> (\<exists>x \<in> set xs. f x = Some y)"
  by (induction xs) (auto split: option.splits)

lemma thrownBy_Some: "thrownBy C ps ch r = Some e \<longleftrightarrow> check r C ps ch = Inl e"
  by (cases "check r C ps ch") (simp_all add: thrownBy_def)

lemma truthy_not_nullish: "truthyExn e \<Longrightarrow> \<not> nullishExn e"
  by (cases e rule: nullishExn.cases) simp_all

lemma firstKept_truthy:
  assumes "\<forall>r \<in> set rs. \<forall>e. check r C ps ch = Inl e \<longrightarrow> truthyExn e"
  shows "firstKept C ps ch rs = firstThrown C ps ch rs"
proof -
  have "\<forall>e \<in> set (List.map_filter (thrownBy C ps ch) rs). \<not> nullishExn e"
    using assms
    by (auto simp add: in_map_filter thrownBy_Some truthy_not_nullish)
  then have "filter (\<lambda>e. \<not> nullishExn e) (List.map_filter (thrownBy C ps ch) rs)
               = List.map_filter (thrownBy C ps ch) rs"
    by (simp add: filter_id_conv)
  then show ?thesis by (simp add: firstKept_def firstThrown_def)
qed

text \<open>
  C1 (as amended). When the hydration directive is not \<^verbatim>\<open>only\<close> and the component
  is not tagged, resolution calls the capability checks of the renderers in registry
  order, up to and including the first that returns true, and selects that renderer. A
  check that throws does not stop the loop. When no renderer claims the component, the
  first thrown value that is neither \<^verbatim>\<open>undefined\<close> nor \<^verbatim>\<open>null\<close> is thrown if
  it is truthy; otherwise no renderer is selected. When every thrown value is truthy
  (an Error object), that value is the exception of the first check that threw. What
  follows is the fallback for native elements of lines 148 to 160.
\<close>

theorem normal_path_first_claiming_renderer:
  assumes "hydrate md \<noteq> Some ''only''" and "\<not> isTagged C"
  shows "resolveRenderer result en md C rawProps ps sl ch =
     andThen
       (map (\<lambda>r. EvCheck (name r)) (examined C ps ch (renderers result)),
        case find (claimsIt C ps ch) (renderers result) of
          Some r \<Rightarrow> Inr (Some r)
        | None \<Rightarrow>
            (case firstKept C ps ch (renderers result) of
               Some e \<Rightarrow> if truthyExn e then Inl (Thrown e) else Inr None
             | None \<Rightarrow> Inr None))
       (elementFallback en C rawProps sl)
     \<and> ((\<forall>r \<in> set (renderers result). \<forall>e. check r C ps ch = Inl e \<longrightarrow> truthyExn e) \<longrightarrow>
          firstKept C ps ch (renderers result) = firstThrown C ps ch (renderers result)
          \<and> (\<forall>e. firstThrown C ps ch (renderers result) = Some e \<longrightarrow> truthyExn e))"
proof (intro conjI impI allI)
  show "resolveRenderer result en md C rawProps ps sl ch =
     andThen
       (map (\<lambda>r. EvCheck (name r)) (examined C ps ch (renderers result)),
        case find (claimsIt C ps ch) (renderers result) of
          Some r \<Rightarrow> Inr (Some r)
        | None \<Rightarrow>
            (case firstKept C ps ch (renderers result) of
               Some e \<Rightarrow> if truthyExn e then Inl (Thrown e) else Inr None
             | None \<Rightarrow> Inr None))
       (elementFallback en C rawProps sl)"
    using assms
    by (simp add: resolveRenderer_def resolveNormal_def taggedRenderer_def checkRenderers_spec)
next
  assume a: "\<forall>r \<in> set (renderers result). \<forall>e. check r C ps ch = Inl e \<longrightarrow> truthyExn e"
  then show "firstKept C ps ch (renderers result) = firstThrown C ps ch (renderers result)"
    by (rule firstKept_truthy)
next
  fix e
  assume a: "\<forall>r \<in> set (renderers result). \<forall>e. check r C ps ch = Inl e \<longrightarrow> truthyExn e"
    and f: "firstThrown C ps ch (renderers result) = Some e"
  from f have "e \<in> set (List.map_filter (thrownBy C ps ch) (renderers result))"
    by (auto simp add: firstThrown_def split: list.splits)
  then show "truthyExn e"
    using a by (auto simp add: in_map_filter thrownBy_Some)
qed

theorem normal_path_first_claiming_renderer_witness:
  "hydrate (buildMetadata ''Counter'' None) \<noteq> Some ''only''
   \<and> \<not> isTagged (sampleComponent 2 (Marker JUndefined))
   \<and> resolveRenderer sampleResult sampleEnv (buildMetadata ''Counter'' None)
        (sampleComponent 2 (Marker JUndefined)) [] [] [] []
      = ([EvCheck ''@astrojs/react'', EvCheck ''@astrojs/vue''],
         Inr (Resolved (Some (sampleRenderer ''@astrojs/vue'' vueCheck))))
   \<and> resolveRenderer sampleResult sampleEnv (buildMetadata ''Counter'' None)
        (sampleComponent 3 (Marker JUndefined)) [] [] [] []
      = ([EvCheck ''@astrojs/react'', EvCheck ''@astrojs/vue''], Inl (Thrown (JsError ''react'')))
   \<and> resolveRenderer emptyResult sampleEnv (buildMetadata ''Counter'' None)
        (sampleComponent 3 (Marker JUndefined)) [] [] [] []
      = ([EvCheck ''@astrojs/react''], Inr (Resolved None))"
proof -
  have h: "hydrate (buildMetadata ''Counter'' None) \<noteq> Some ''only''"
    by (simp add: buildMetadata_def)
  have t2: "\<not> isTagged (sampleComponent 2 (Marker JUndefined))"
    by (simp add: isTagged_def markerOf_def sampleComponent_def)
  have t3: "\<not> isTagged (sampleComponent 3 (Marker JUndefined))"
    by (simp add: isTagged_def markerOf_def sampleComponent_def)
  note T = normal_path_first_claiming_renderer [THEN conjunct1]
  show ?thesis
    using h t2
      T [OF h t2, of sampleResult sampleEnv "[]" "[]" "[]" "[]"]
      T [OF h t3, of sampleResult sampleEnv "[]" "[]" "[]" "[]"]
      T [OF h t3, of emptyResult sampleEnv "[]" "[]" "[]" "[]"]
    by (simp add: sampleResult_def emptyResult_def sampleRenderer_def sampleComponent_def reactCheck_def
          vueCheck_def emptyCheck_def examined_def claimsIt_def firstKept_def thrownBy_def andThen_def
          elementFallback_def ret_def sampleEnv_def componentIsHTMLElement_def)
qed

text \<open>
  C1 as stated fails: when the first check throws \<^verbatim>\<open>undefined\<close> and the second an
  Error, no renderer claiming the component, it is the second exception that is thrown.
\<close>

theorem nullish_thrown_value_counterexample:
  "hydrate (buildMetadata ''Counter'' None) \<noteq> Some ''only''
   \<and> \<not> isTagged (sampleComponent 3 (Marker JUndefined))
   \<and> find (claimsIt (sampleComponent 3 (Marker JUndefined)) [] []) (renderers undefResult) = None
   \<and> firstThrown (sampleComponent 3 (Marker JUndefined)) [] [] (renderers undefResult)
       = Some (ThrownValue JUndefined)
   \<and> resolveRenderer undefResult sampleEnv (buildMetadata ''Counter'' None)
        (sampleComponent 3 (Marker JUndefined)) [] [] [] []
      = ([EvCheck ''@astrojs/react'', EvCheck ''@astrojs/vue''], Inl (Thrown (JsError ''vue'')))"
  by (simp add: buildMetadata_def isTagged_def markerOf_def sampleComponent_def claimsIt_def
        undefResult_def sampleRenderer_def undefCheck_def vueCheck_def firstThrown_def thrownBy_def
        List.map_filter_simps resolveRenderer_def resolveNormal_def taggedRenderer_def checkRenderers_def
        andThen_def elementFallback_def ret_def sampleEnv_def componentIsHTMLElement_def)


subsection \<open>The marker\<close>

lemma taggedRenderer_carried:
  "taggedRenderer rs C =
     (case carriedMarker C of None \<Rightarrow> None | Some v \<Rightarrow> find (\<lambda>r. JStr (name r) = v) rs)"
  by (simp add: taggedRenderer_def carriedMarker_def isTagged_def split: marker.splits)

text \<open>
  C2 (as amended). When the hydration directive is not \<^verbatim>\<open>only\<close> and the component
  carries a marker that is the name of a registered renderer, the first renderer of
  that name is selected and no capability check is called. When the marker names no
  registered renderer, or the component carries none, resolution goes on with the
  capability checks. An exception thrown by reading the marker is not propagated:
  resolution goes on with the capability checks, as for a missing marker.
\<close>

theorem tagged_renderer_by_name:
  assumes "hydrate md \<noteq> Some ''only''"
  shows "resolveRenderer result en md C rawProps ps sl ch =
     (case carriedMarker C of
        None \<Rightarrow>
          andThen (checkRenderers (renderers result) C ps ch) (elementFallback en C rawProps sl)
      | Some v \<Rightarrow>
          (case find (\<lambda>r. JStr (name r) = v) (renderers result) of
             Some r \<Rightarrow> ([], Inr (Resolved (Some r)))
           | None \<Rightarrow>
               andThen (checkRenderers (renderers result) C ps ch)
                 (elementFallback en C rawProps sl)))
     \<and> (markerOf C = MarkerThrows \<longrightarrow>
          resolveRenderer result en md C rawProps ps sl ch =
            andThen (checkRenderers (renderers result) C ps ch) (elementFallback en C rawProps sl))"
proof -
  have "andThen (ret (Some r)) (elementFallback en C rawProps sl) = ([], Inr (Resolved (Some r)))"
    for r
    by (simp add: andThen_def ret_def elementFallback_def)
  then have main: "resolveRenderer result en md C rawProps ps sl ch =
     (case carriedMarker C of
        None \<Rightarrow>
          andThen (checkRenderers (renderers result) C ps ch) (elementFallback en C rawProps sl)
      | Some v \<Rightarrow>
          (case find (\<lambda>r. JStr (name r) = v) (renderers result) of
             Some r \<Rightarrow> ([], Inr (Resolved (Some r)))
           | None \<Rightarrow>
               andThen (checkRenderers (renderers result) C ps ch)
                 (elementFallback en C rawProps sl)))"
    using assms
    by (simp add: resolveRenderer_def resolveNormal_def taggedRenderer_carried split: option.splits)
  have "markerOf C = MarkerThrows \<longrightarrow> carriedMarker C = None"
    by (simp add: carriedMarker_def)
  with main show ?thesis by simp
qed

theorem tagged_renderer_by_name_witness:
  "hydrate (buildMetadata ''Counter'' None) \<noteq> Some ''only''
   \<and> resolveRenderer sampleResult sampleEnv (buildMetadata ''Counter'' None)
        (sampleComponent 3 (Marker (JStr ''@astrojs/vue''))) [] [] [] []
      = ([], Inr (Resolved (Some (sampleRenderer ''@astrojs/vue'' vueCheck))))
   \<and> markerOf (sampleComponent 1 MarkerThrows) = MarkerThrows
   \<and> resolveRenderer sampleResult sampleEnv (buildMetadata ''Counter'' None)
        (sampleComponent 1 MarkerThrows) [] [] [] []
      = andThen (checkRenderers (renderers sampleResult) (sampleComponent 1 MarkerThrows) [] [])
          (elementFallback sampleEnv (sampleComponent 1 MarkerThrows) [] [])"
proof -
  have h: "hydrate (buildMetadata ''Counter'' None) \<noteq> Some ''only''"
    by (simp add: buildMetadata_def)
  have m: "markerOf (sampleComponent 1 MarkerThrows) = MarkerThrows"
    by (simp add: markerOf_def sampleComponent_def)
  have c: "carriedMarker (sampleComponent 3 (Marker (JStr ''@astrojs/vue''))) = Some (JStr ''@astrojs/vue'')"
    by (simp add: carriedMarker_def markerOf_def sampleComponent_def)
  have f: "find (\<lambda>r. name r = ''@astrojs/vue'') (renderers sampleResult)
             = Some (sampleRenderer ''@astrojs/vue'' vueCheck)"
    by (simp add: sampleResult_def sampleRenderer_def)
  have r1: "resolveRenderer sampleResult sampleEnv (buildMetadata ''Counter'' None)
        (sampleComponent 3 (Marker (JStr ''@astrojs/vue''))) [] [] [] []
      = ([], Inr (Resolved (Some (sampleRenderer ''@astrojs/vue'' vueCheck))))"
    using tagged_renderer_by_name [OF h, of sampleResult sampleEnv
        "sampleComponent 3 (Marker (JStr ''@astrojs/vue''))" "[]" "[]" "[]" "[]"]
    by (simp add: c f)
  have r2: "resolveRenderer sampleResult sampleEnv (buildMetadata ''Counter'' None)
        (sampleComponent 1 MarkerThrows) [] [] [] []
      = andThen (checkRenderers (renderers sampleResult) (sampleComponent 1 MarkerThrows) [] [])
          (elementFallback sampleEnv (sampleComponent 1 MarkerThrows) [] [])"
    by (rule mp [OF conjunct2 [OF tagged_renderer_by_name [OF h]] m])
  from h r1 m r2 show ?thesis by (intro conjI)
qed

text \<open>
  C2 as stated fails: a component tagged with a name that is not registered is resolved
  by the capability checks, here by the check of the first renderer.
\<close>

theorem tagged_unregistered_counterexample:
  "isTagged (sampleComponent 1 (Marker (JStr ''@astrojs/svelte'')))
   \<and> hydrate (buildMetadata ''Counter'' None) \<noteq> Some ''only''
   \<and> resolveRenderer sampleResult sampleEnv (buildMetadata ''Counter'' None)
        (sampleComponent 1 (Marker (JStr ''@astrojs/svelte''))) [] [] [] []
      = ([EvCheck ''@astrojs/react''], Inr (Resolved (Some (sampleRenderer ''@astrojs/react'' reactCheck))))"
  by (simp add: isTagged_def markerOf_def sampleComponent_def buildMetadata_def resolveRenderer_def
        resolveNormal_def taggedRenderer_def sampleResult_def sampleRenderer_def checkRenderers_def
        reactCheck_def andThen_def elementFallback_def ret_def)

subsection \<open>The client:only directive\<close>

lemma find_filter_hd: "find P xs = (case filter P xs of [] \<Rightarrow> None | x # ys \<Rightarrow> Some x)"
  by (induction xs) auto

lemma alias_lookup: "map_of rendererAliases s = (if s = ''solid'' then Some ''solid-js'' else None)"
  by (simp add: rendererAliases_def)

lemma passedRenderer_named: "passedRenderer rs md = namedRenderer rs (hydrateArgs md)"
  by (cases "hydrateArgs md")
     (auto simp add: passedRenderer_def namedRenderer_def alias_lookup aliasOf_def namedAs_def Let_def
        intro!: arg_cong2 [where f = find] split: option.splits)

text \<open>
  C3. When the hydration directive is \<^verbatim>\<open>only\<close>, no capability check is called and
  the renderer is, in this order: (a) the first renderer that the argument of the
  directive names, after the alias table (\<^verbatim>\<open>solid\<close> is \<^verbatim>\<open>solid-js\<close>), with the scope
  \<^verbatim>\<open>@astrojs/\<close> or bare; (b) when (a) gives none, the one renderer that is not the
  pass-through renderer, when there is exactly one; (c) otherwise the first renderer
  named, with the scope or bare, as what follows the last dot of the component URL.
\<close>

theorem only_resolution_order:
  assumes "hydrate md = Some ''only''" and "componentUrl md = Some url"
  shows "resolveRenderer result en md C rawProps ps sl ch =
     ([], Inr (Resolved
        (case namedRenderer (renderers result) (hydrateArgs md) of
           Some r \<Rightarrow> Some r
         | None \<Rightarrow>
             (case filter (\<lambda>r. \<not> passThrough r) (renderers result) of
                [r] \<Rightarrow> Some r
              | _ \<Rightarrow> find (namedAs (lastSegment url)) (renderers result)))))"
proof -
  have ext: "extensionRenderer (renderers result) md = find (namedAs (lastSegment url)) (renderers result)"
    using assms(2)
    unfolding extensionRenderer_def extnameOf_def find_filter_hd namedAs_def
    by simp
  show ?thesis
    using assms(1)
    by (simp add: resolveRenderer_def resolveOnly_def passedRenderer_named ext validRenderers_def
          passThrough_def ret_def split: option.splits list.splits)
qed


theorem only_resolution_order_witness:
  "hydrate (buildMetadata ''Counter'' (Some (onlyHydration (JStr ''solid'') ''/src/Counter.tsx''))) = Some ''only''
   \<and> componentUrl (buildMetadata ''Counter'' (Some (onlyHydration (JStr ''solid'') ''/src/Counter.tsx'')))
       = Some ''/src/Counter.tsx''
   \<and> resolveRenderer solidResult sampleEnv
        (buildMetadata ''Counter'' (Some (onlyHydration (JStr ''solid'') ''/src/Counter.tsx'')))
        Nullish [] [] [] []
      = ([], Inr (Resolved (Some (sampleRenderer ''@astrojs/solid-js'' vueCheck))))
   \<and> resolveRenderer solidResult sampleEnv
        (buildMetadata ''Counter'' (Some (onlyHydration (JBool True) ''/src/Counter.tsx'')))
        Nullish [] [] [] []
      = ([], Inr (Resolved (Some (sampleRenderer ''@astrojs/solid-js'' vueCheck))))
   \<and> resolveRenderer sampleResult sampleEnv
        (buildMetadata ''Counter'' (Some (onlyHydration (JBool True) ''/src/Counter.vue'')))
        Nullish [] [] [] []
      = ([], Inr (Resolved (Some (sampleRenderer ''@astrojs/vue'' vueCheck))))"
proof -
  have h: "hydrate (buildMetadata dn (Some (onlyHydration v u))) = Some ''only''" for dn v u
    by (simp add: buildMetadata_def onlyHydration_def)
  have u: "componentUrl (buildMetadata dn (Some (onlyHydration v u))) = Some u" for dn v u
    by (simp add: buildMetadata_def onlyHydration_def)
  have a: "hydrateArgs (buildMetadata dn (Some (onlyHydration v u))) = v" for dn v u
    by (simp add: buildMetadata_def onlyHydration_def)
  show ?thesis
    using h u
      only_resolution_order [OF h u, of solidResult sampleEnv "''Counter''" "JStr ''solid''"
        "''/src/Counter.tsx''" Nullish "[]" "[]" "[]" "[]"]
      only_resolution_order [OF h u, of solidResult sampleEnv "''Counter''" "JBool True"
        "''/src/Counter.tsx''" Nullish "[]" "[]" "[]" "[]"]
      only_resolution_order [OF h u, of sampleResult sampleEnv "''Counter''" "JBool True"
        "''/src/Counter.vue''" Nullish "[]" "[]" "[]" "[]"]
    by (simp add: a namedRenderer_def namedAs_def aliasOf_def passThrough_def solidResult_def
          sampleResult_def sampleRenderer_def lastSegment_def)
qed

section \<open>The island\<close>

subsection \<open>Slots\<close>

lemma startsWith_iff: "startsWith s p \<longleftrightarrow> (\<exists>post. s = p @ post)"
  by (induction s p rule: startsWith.induct) auto

lemma includesStr_iff: "includesStr s p \<longleftrightarrow> occursIn p s"
proof (induction s)
  case Nil
  show ?case by (auto simp add: occursIn_def)
next
  case (Cons c cs)
  show ?case
  proof
    assume "includesStr (c # cs) p"
    then consider "startsWith (c # cs) p" | "includesStr cs p" by auto
    then show "occursIn p (c # cs)"
    proof cases
      case 1
      then obtain post where "c # cs = p @ post" by (auto simp add: startsWith_iff)
      then have "c # cs = [] @ p @ post" by simp
      then show ?thesis unfolding occursIn_def by blast
    next
      case 2
      then obtain pre post where "cs = pre @ p @ post" using Cons.IH by (auto simp add: occursIn_def)
      then have "c # cs = (c # pre) @ p @ post" by simp
      then show ?thesis unfolding occursIn_def by blast
    qed
  next
    assume "occursIn p (c # cs)"
    then obtain pre post where eq: "c # cs = pre @ p @ post" by (auto simp add: occursIn_def)
    show "includesStr (c # cs) p"
    proof (cases pre)
      case Nil
      with eq have "startsWith (c # cs) p" unfolding startsWith_iff by auto
      then show ?thesis by simp
    next
      case (Cons d ds)
      with eq have "cs = ds @ p @ post" by simp
      then have "occursIn p cs" unfolding occursIn_def by blast
      then show ?thesis using Cons.IH by simp
    qed
  qed
qed

lemma expectedHTML_markerTag: "expectedHTML (slotTagName renderer md) key = markerTag renderer md key"
  by (simp add: expectedHTML_def slotTagName_def markerTag_def)

lemma slotTemplate_inert: "slotTemplate ch = (\<lambda>key. inertTemplate key (childOf ch key))"
  by (rule ext) (simp add: slotTemplate_def inertTemplate_def)

text \<open>
  C4. When the island is built, the unrendered slots are the keys of the rendered
  children, in their order, whose marker tag does not occur in the markup of the
  renderer, and all keys when the markup is empty. The hosted content of the island is
  the markup followed by one inert template for each unrendered slot, with the content
  of the slot, named by the key unless it is the default slot; it is what the island
  element that the instance writes hosts.
\<close>

theorem slot_reconciliation:
  "unrenderedSlots renderer md html ch =
     filter (\<lambda>key. html = [] \<or> \<not> occursIn (markerTag renderer md key) html) (map fst ch)
   \<and> islandChildren renderer md html ch =
       html @ concat (map (\<lambda>key. inertTemplate key (childOf ch key))
                        (unrenderedSlots renderer md html ch))
   \<and> (astroIdFor en md ps html = Inr astroId \<longrightarrow>
        generateHydrateScript en renderer astroId ps attrs md = Inr isle \<longrightarrow>
        renderIsland en md h renderer ps attrs ch slotInstructions html =
          ([], Inr (instructionChunks slotInstructions
                    @ [Instr (DirectiveInstr h),
                       Markup (renderElement en ''astro-island''
                                 (hostIsland isle (islandChildren renderer md html ch)))],
                    None)))"
proof (intro conjI impI)
  show "unrenderedSlots renderer md html ch =
     filter (\<lambda>key. html = [] \<or> \<not> occursIn (markerTag renderer md key) html) (map fst ch)"
    by (simp add: unrenderedSlots_def includesStr_iff expectedHTML_markerTag)
  show "islandChildren renderer md html ch =
       html @ concat (map (\<lambda>key. inertTemplate key (childOf ch key))
                        (unrenderedSlots renderer md html ch))"
    by (simp add: islandChildren_def slotTemplate_inert)
next
  assume "astroIdFor en md ps html = Inr astroId"
    and "generateHydrateScript en renderer astroId ps attrs md = Inr isle"
  then show "renderIsland en md h renderer ps attrs ch slotInstructions html =
          ([], Inr (instructionChunks slotInstructions
                    @ [Instr (DirectiveInstr h),
                       Markup (renderElement en ''astro-island''
                                 (hostIsland isle (islandChildren renderer md html ch)))],
                    None))"
    by (simp add: renderIsland_def attempt_def andThen_def ret_def)
qed

theorem slot_reconciliation_witness:
  "unrenderedSlots (Some (sampleRenderer ''@astrojs/vue'' vueCheck))
     (buildMetadata ''Card'' (Some loadHydration)) cardHtml [(''a'', ''A''), (''b'', ''B'')] = [''b'']
   \<and> islandChildren (Some (sampleRenderer ''@astrojs/vue'' vueCheck))
       (buildMetadata ''Card'' (Some loadHydration)) cardHtml [(''a'', ''A''), (''b'', ''B'')]
       = cardHtml @ ''<template data-astro-template='' @ [CHR 0x22] @ ''b'' @ [CHR 0x22] @ ''>B</template>''
   \<and> unrenderedSlots (Some (sampleRenderer ''@astrojs/vue'' vueCheck))
       (buildMetadata ''Card'' (Some loadHydration)) [] [(''a'', ''A''), (''b'', ''B'')] = [''a'', ''b'']
   \<and> astroIdFor sampleEnv (buildMetadata ''Card'' (Some loadHydration)) [(''title'', JStr ''x'')] cardHtml
       = Inr '';x=eltit''
   \<and> generateHydrateScript sampleEnv (Some (sampleRenderer ''@astrojs/vue'' vueCheck)) '';x=eltit''
         [(''title'', JStr ''x'')]
         None (buildMetadata ''Card'' (Some loadHydration))
       = Inr \<lparr>island_props = [(''uid'', '';x=eltit'')], island_children = []\<rparr>
   \<and> renderIsland sampleEnv (buildMetadata ''Card'' (Some loadHydration)) loadHydration
         (Some (sampleRenderer ''@astrojs/vue'' vueCheck)) [(''title'', JStr ''x'')] None
         [(''a'', ''A''), (''b'', ''B'')] None
         cardHtml
       = ([], Inr ([Instr (DirectiveInstr loadHydration),
                    Markup (''<astro-island>'' @ cardHtml @ ''<template data-astro-template=''
                            @ [CHR 0x22] @ ''b'' @ [CHR 0x22] @ ''>B</template></astro-island>'')],
                   None))"
proof -
  let ?r = "Some (sampleRenderer ''@astrojs/vue'' vueCheck)"
  let ?md = "buildMetadata ''Card'' (Some loadHydration)"
  let ?ch = "[(''a'', ''A''), (''b'', ''B'')]"
  note T = slot_reconciliation [of ?r ?md cardHtml ?ch sampleEnv "[(''title'', JStr ''x'')]" "'';x=eltit''" None
      "\<lparr>island_props = [(''uid'', '';x=eltit'')], island_children = []\<rparr>" loadHydration None]
  have occ: "occursIn (markerTag ?r ?md ''a'') cardHtml"
    unfolding includesStr_iff [symmetric]
    by (simp add: markerTag_def cardHtml_def supportsStatic_def sampleRenderer_def hydrateSet_def
          buildMetadata_def loadHydration_def)
  have nocc: "\<not> occursIn (markerTag ?r ?md ''b'') cardHtml"
    unfolding includesStr_iff [symmetric]
    by (simp add: markerTag_def cardHtml_def supportsStatic_def sampleRenderer_def hydrateSet_def
          buildMetadata_def loadHydration_def)
  have ne: "cardHtml \<noteq> []" by (simp add: cardHtml_def)
  have u1: "unrenderedSlots ?r ?md cardHtml ?ch = [''b'']"
    using T occ nocc ne by simp
  have u2: "unrenderedSlots ?r ?md [] ?ch = [''a'', ''b'']"
    using slot_reconciliation [of ?r ?md "[]" ?ch] by simp
  have ic: "islandChildren ?r ?md cardHtml ?ch
       = cardHtml @ ''<template data-astro-template='' @ [CHR 0x22] @ ''b'' @ [CHR 0x22] @ ''>B</template>''"
    using T u1 by (simp add: inertTemplate_def childOf_def)
  have aid: "astroIdFor sampleEnv ?md [(''title'', JStr ''x'')] cardHtml = Inr '';x=eltit''"
    by (simp add: astroIdFor_def astroIdOf_def sampleEnv_def buildMetadata_def loadHydration_def
          cardHtml_def)
  have gen: "generateHydrateScript sampleEnv ?r '';x=eltit'' [(''title'', JStr ''x'')] None ?md
       = Inr \<lparr>island_props = [(''uid'', '';x=eltit'')], island_children = []\<rparr>"
    by (simp add: sampleEnv_def)
  have ri: "renderIsland sampleEnv ?md loadHydration ?r [(''title'', JStr ''x'')] None ?ch None cardHtml
       = ([], Inr ([Instr (DirectiveInstr loadHydration),
                    Markup (''<astro-island>'' @ cardHtml @ ''<template data-astro-template=''
                            @ [CHR 0x22] @ ''b'' @ [CHR 0x22] @ ''>B</template></astro-island>'')],
                   None))"
    using T aid gen ic ne
    by (simp add: hostIsland_def instructionChunks_def sampleEnv_def)
  from u1 ic u2 aid gen ri show ?thesis by (intro conjI)
qed

section \<open>The custom element without a renderer\<close>








lemma andThen_ret: "andThen (ret x) f = f x"
  by (cases "f x") (simp add: andThen_def ret_def)

lemma andThen_raise: "andThen (raise e) f = raise e"
  by (simp add: andThen_def raise_def)

lemma andThen_attempt_Inr: "r = Inr x \<Longrightarrow> andThen (attempt r) f = f x"
  by (cases "f x") (simp add: andThen_def attempt_def)

lemma andThen_call_Inr: "r = Inr x \<Longrightarrow> andThen (call ev r) f = (ev # fst (f x), snd (f x))"
  by (cases "f x") (simp add: andThen_def call_def)







subsection \<open>The identity of the island\<close>

text \<open>
  C6. The identity of an island is the hash of a string made of the export name, the
  component URL, the static markup and the serialized props: two occurrences with the
  same four have the same identity, whatever else differs (display name, directive).
\<close>

theorem astroId_deterministic:
  assumes "componentExport md1 = Some exportValue" and "componentExport md2 = Some exportValue"
    and "componentUrl md1 = Some url" and "componentUrl md2 = Some url"
    and "serializeProps en ps1 md1 = Inr serialized" and "serializeProps en ps2 md2 = Inr serialized"
  shows "astroIdFor en md1 ps1 html = Inr (astroIdOf en exportValue url html serialized)
         \<and> astroIdFor en md2 ps2 html = astroIdFor en md1 ps1 html"
  using assms by (simp add: astroIdFor_def)

theorem astroId_deterministic_witness:
  "astroIdFor sampleEnv (buildMetadata ''First'' (Some loadHydration)) [(''title'', JStr ''x'')] cardHtml
     = Inr '';x=eltit''
   \<and> astroIdFor sampleEnv (buildMetadata ''Second'' (Some idleHydration)) [(''title'', JStr ''x'')] cardHtml
     = astroIdFor sampleEnv (buildMetadata ''First'' (Some loadHydration)) [(''title'', JStr ''x'')] cardHtml"
proof -
  let ?m1 = "buildMetadata ''First'' (Some loadHydration)"
  let ?m2 = "buildMetadata ''Second'' (Some idleHydration)"
  have e1: "componentExport ?m1 = Some ''default''" and e2: "componentExport ?m2 = Some ''default''"
    and u1: "componentUrl ?m1 = Some ''/src/Card.vue''" and u2: "componentUrl ?m2 = Some ''/src/Card.vue''"
    by (simp_all add: buildMetadata_def loadHydration_def idleHydration_def)
  have s1: "serializeProps sampleEnv [(''title'', JStr ''x'')] ?m1 = Inr ''title=x;''"
    and s2: "serializeProps sampleEnv [(''title'', JStr ''x'')] ?m2 = Inr ''title=x;''"
    by (simp_all add: sampleEnv_def)
  have h: "astroIdOf sampleEnv ''default'' ''/src/Card.vue'' cardHtml ''title=x;'' = '';x=eltit''"
    by (simp add: astroIdOf_def sampleEnv_def)
  show ?thesis
    using astroId_deterministic [OF e1 e2 u1 u2 s1 s2, of cardHtml] h by simp
qed

section \<open>The client entrypoint\<close>

lemma never_ret: "neverNoClientEntrypoint (ret x)"
  by (simp add: neverNoClientEntrypoint_def ret_def)

lemma never_call: "neverNoClientEntrypoint (call ev r)"
  by (cases r) (simp_all add: neverNoClientEntrypoint_def call_def)

lemma never_attempt: "neverNoClientEntrypoint (attempt r)"
  by (cases r) (simp_all add: neverNoClientEntrypoint_def attempt_def)

lemma never_andThen:
  assumes "neverNoClientEntrypoint m" and "\<And>x. neverNoClientEntrypoint (f x)"
  shows "neverNoClientEntrypoint (andThen m f)"
proof (cases m)
  case (Pair t r)
  show ?thesis
  proof (cases r)
    case (Inl e)
    with Pair assms(1) show ?thesis by (simp add: neverNoClientEntrypoint_def andThen_def)
  next
    case (Inr x)
    with Pair assms(2) [of x] show ?thesis
      by (cases "f x") (simp add: neverNoClientEntrypoint_def andThen_def)
  qed
qed

lemma never_checkRenderers: "neverNoClientEntrypoint (checkRenderers rs C ps ch)"
  by (simp add: checkRenderers_spec neverNoClientEntrypoint_def split: option.splits)

lemma never_elementFallback: "neverNoClientEntrypoint (elementFallback en C rawProps sl r)"
  by (simp add: elementFallback_def never_ret never_andThen never_call split: option.splits)

lemma never_resolveRenderer: "neverNoClientEntrypoint (resolveRenderer result en md C rawProps ps sl ch)"
  by (simp add: resolveRenderer_def resolveNormal_def never_ret never_andThen never_checkRenderers
        never_elementFallback split: option.splits)

lemma never_produceMarkup: "neverNoClientEntrypoint (produceMarkup result en md C ps sl ch r)"
  by (auto simp add: produceMarkup_def Let_def never_ret never_call
        intro!: never_andThen split: option.splits list.splits)
     (simp_all add: neverNoClientEntrypoint_def raise_def)

lemma never_resolveAndRender: "neverNoClientEntrypoint (resolveAndRender result en dn C rawProps sl)"
  unfolding resolveAndRender_def Let_def
  by (auto intro!: never_andThen never_attempt never_call never_resolveRenderer never_produceMarkup
        never_ret split: resolution.splits)
     (simp add: neverNoClientEntrypoint_def raise_def)

lemma never_renderCustomElement: "neverNoClientEntrypoint (renderCustomElement en C ps ch html)"
  by (cases C) (auto simp add: renderCustomElement_def Let_def intro!: never_andThen never_attempt never_ret)

lemma never_customElementStep: "neverNoClientEntrypoint (customElementStep en C ps ch html)"
  by (cases html) (simp_all add: customElementStep_def never_renderCustomElement never_ret)

lemma never_renderIsland:
  "neverNoClientEntrypoint (renderIsland en md h renderer ps attrs ch si html)"
  unfolding renderIsland_def by (intro never_andThen never_attempt never_ret)


lemma never_emit:
  "neverNoClientEntrypoint
     (andThen (customElementStep en C ps ch html0)
        (\<lambda>html. case hyd of
             None \<Rightarrow> ret (staticChunks isPage renderer html si, None)
           | Some h \<Rightarrow> renderIsland en md h renderer ps attrs ch si html))"
  by (intro never_andThen never_customElementStep)
     (simp add: never_ret never_renderIsland split: option.splits)

lemma snd_andThen_ret: "snd (andThen (ret x) f) = snd (f x)"
  by (cases "f x") (simp add: andThen_def ret_def)

lemma snd_andThen_raise: "snd (andThen (raise e) f) = Inl e"
  by (simp add: andThen_def raise_def)

lemma validateAndEmit_entrypoint:
  "snd (validateAndEmit en dn C (ex, ch, si, rd)) = Inl (NoClientEntrypoint a b c) \<longleftrightarrow>
     (\<exists>r html attrs. rd = Rendered (Some r) html attrs
        \<and> hydrate (buildMetadata dn (ex_hydration ex)) = Some b \<and> b \<noteq> []
        \<and> noClientEntrypoint r \<and> name r \<noteq> ''@astrojs/lit'' \<and> a = dn \<and> c = name r)"
proof (cases rd)
  case (Early out)
  then show ?thesis by (simp add: validateAndEmit_def ret_def)
next
  case (Rendered ro html0 attrs)
  let ?md = "buildMetadata dn (ex_hydration ex)"
  let ?rest = "\<lambda>u::unit. andThen (customElementStep en C (ex_props ex) ch html0)
        (\<lambda>html. case ex_hydration ex of
             None \<Rightarrow> ret (staticChunks (ex_isPage ex) ro html si, None)
           | Some h \<Rightarrow> renderIsland en ?md h ro (ex_props ex) attrs ch si html)"
  have ve: "validateAndEmit en dn C (ex, ch, si, rd) = andThen (checkClientEntrypoint dn ?md ro) ?rest"
    using Rendered by (simp add: validateAndEmit_def Let_def)
  have rest: "snd (?rest ()) \<noteq> Inl (NoClientEntrypoint a b c)"
    using never_emit [where en = en and C = C and ps = "ex_props ex" and ch = ch and ?html0.0 = html0
        and hyd = "ex_hydration ex" and isPage = "ex_isPage ex" and renderer = ro and si = si
        and md = ?md and attrs = attrs]
    by (simp add: neverNoClientEntrypoint_def)
  show ?thesis
  proof (cases ro)
    case None
    have "snd (andThen (checkClientEntrypoint dn ?md ro) ?rest) = snd (?rest ())"
      using None by (simp add: checkClientEntrypoint_def snd_andThen_ret)
    then show ?thesis
      unfolding ve using rest Rendered None by simp
  next
    case (Some r)
    show ?thesis
    proof (cases "noClientEntrypoint r \<and> name r \<noteq> ''@astrojs/lit'' \<and> hydrateSet ?md")
      case True
      then obtain d where d: "hydrate ?md = Some d" "d \<noteq> []"
        by (auto simp add: hydrateSet_def split: option.splits)
      have "snd (andThen (checkClientEntrypoint dn ?md ro) ?rest)
              = Inl (NoClientEntrypoint dn d (name r))"
        using True Some d by (simp add: checkClientEntrypoint_def snd_andThen_raise)
      then show ?thesis
        unfolding ve using True Some Rendered d by auto
    next
      case False
      have "checkClientEntrypoint dn ?md ro = ret ()"
        using False Some by (auto simp add: checkClientEntrypoint_def)
      then have "snd (andThen (checkClientEntrypoint dn ?md ro) ?rest) = snd (?rest ())"
        by (simp add: snd_andThen_ret)
      then have "snd (validateAndEmit en dn C (ex, ch, si, rd)) \<noteq> Inl (NoClientEntrypoint a b c)"
        unfolding ve using rest by simp
      moreover have "\<not> (hydrate ?md = Some b \<and> b \<noteq> [] \<and> noClientEntrypoint r \<and> name r \<noteq> ''@astrojs/lit'')"
        using False by (auto simp add: hydrateSet_def)
      ultimately show ?thesis using Some Rendered by auto
    qed
  qed
qed

text \<open>
  C7 (as amended). Rendering fails with the error of the missing client entrypoint
  exactly when lines 83 to 250 ended without an exception with a renderer (resolved,
  and its static markup or, for \<^verbatim>\<open>client:only\<close>, the fallback slot rendered), a
  hydration directive is set (not the empty string), the renderer has no client
  entrypoint, and its name is not \<^verbatim>\<open>@astrojs/lit\<close>; the error then carries the
  display name, the directive and the name of the renderer. Under any other combination
  the error is not raised.
\<close>

theorem missing_client_entrypoint:
  "snd (renderFrameworkComponent result en dn C rawProps sl) = Inl (NoClientEntrypoint a b c) \<longleftrightarrow>
     (\<exists>t ex ch si r html attrs.
        resolveAndRender result en dn C rawProps sl = (t, Inr (ex, ch, si, Rendered (Some r) html attrs))
        \<and> hydrate (buildMetadata dn (ex_hydration ex)) = Some b \<and> b \<noteq> []
        \<and> noClientEntrypoint r \<and> name r \<noteq> ''@astrojs/lit'' \<and> a = dn \<and> c = name r)"
proof (cases "resolveAndRender result en dn C rawProps sl")
  case (Pair t res)
  show ?thesis
  proof (cases res)
    case (Inl e)
    have "e \<noteq> NoClientEntrypoint a b c"
      using never_resolveAndRender [of result en dn C rawProps sl] Pair Inl
      by (auto simp add: neverNoClientEntrypoint_def)
    then show ?thesis
      using Pair Inl by (simp add: renderFrameworkComponent_def andThen_def)
  next
    case (Inr st)
    obtain ex ch si rd where st: "st = (ex, ch, si, rd)" by (cases st) auto
    have "snd (renderFrameworkComponent result en dn C rawProps sl)
            = snd (validateAndEmit en dn C (ex, ch, si, rd))"
      using Pair Inr st
      by (cases "validateAndEmit en dn C (ex, ch, si, rd)")
         (simp add: renderFrameworkComponent_def andThen_def)
    then show ?thesis
      using Pair Inr st by (simp add: validateAndEmit_entrypoint)
  qed
qed

theorem missing_client_entrypoint_witness:
  "snd (renderFrameworkComponent \<lparr>renderers = [bareRenderer ''@astrojs/svelte''], compressHTML = False\<rparr>
          sampleEnv ''Card'' (sampleComponent 1 (Marker JUndefined)) loadProps [])
     = Inl (NoClientEntrypoint ''Card'' ''load'' ''@astrojs/svelte'')
   \<and> snd (renderFrameworkComponent \<lparr>renderers = [bareRenderer ''@astrojs/lit''], compressHTML = False\<rparr>
          sampleEnv ''Card'' (sampleComponent 1 (Marker JUndefined)) loadProps [])
     \<noteq> Inl (NoClientEntrypoint ''Card'' ''load'' ''@astrojs/lit'')"
proof -
  let ?ex = "\<lparr>ex_hydration = Some loadHydration, ex_isPage = False, ex_props = [(''title'', JStr ''x'')]\<rparr>"
  have rr: "resolveAndRender \<lparr>renderers = [bareRenderer n], compressHTML = False\<rparr>
          sampleEnv ''Card'' (sampleComponent 1 (Marker JUndefined)) loadProps []
        = ([EvRenderSlots, EvCheck n, EvRenderToStaticMarkup n],
           Inr (?ex, [], None, Rendered (Some (bareRenderer n)) (Primitive (''<div>'' @ n @ ''</div>'')) None))" for n
    by (simp add: resolveAndRender_def sampleComponent_def loadProps_def getProp_def sampleEnv_def
          sampleExtract_def loadHydration_def attempt_def call_def andThen_def ret_def Let_def
          resolveRenderer_def buildMetadata_def resolveNormal_def taggedRenderer_def isTagged_def
          markerOf_def checkRenderers_def bareRenderer_def sampleRenderer_def elementFallback_def
          produceMarkup_def)
  have md: "hydrate (buildMetadata ''Card'' (ex_hydration ?ex)) = Some ''load''"
    by (simp add: buildMetadata_def loadHydration_def)
  have nc: "noClientEntrypoint (bareRenderer n)" "name (bareRenderer n) = n" for n
    by (simp_all add: noClientEntrypoint_def bareRenderer_def sampleRenderer_def)
  have r1: "snd (renderFrameworkComponent \<lparr>renderers = [bareRenderer ''@astrojs/svelte''], compressHTML = False\<rparr>
          sampleEnv ''Card'' (sampleComponent 1 (Marker JUndefined)) loadProps [])
     = Inl (NoClientEntrypoint ''Card'' ''load'' ''@astrojs/svelte'')"
    unfolding missing_client_entrypoint using rr md nc by simp
  have r2: "snd (renderFrameworkComponent \<lparr>renderers = [bareRenderer ''@astrojs/lit''], compressHTML = False\<rparr>
          sampleEnv ''Card'' (sampleComponent 1 (Marker JUndefined)) loadProps [])
     \<noteq> Inl (NoClientEntrypoint ''Card'' ''load'' ''@astrojs/lit'')"
    unfolding missing_client_entrypoint using rr nc by simp
  from r1 r2 show ?thesis by (rule conjI)
qed

text \<open>
  C7 as stated fails: a renderer is resolved, a directive is set, the renderer has no
  client entrypoint and is not \<^verbatim>\<open>@astrojs/lit\<close>, but its
  \<^verbatim>\<open>renderToStaticMarkup\<close>, which is called before the check, throws: the render
  fails with that exception.
\<close>

theorem static_markup_throws_first_counterexample:
  "resolveRenderer \<lparr>renderers = [throwingRenderer ''@astrojs/svelte''], compressHTML = False\<rparr> sampleEnv
      (buildMetadata ''Card'' (Some loadHydration)) (sampleComponent 1 (Marker JUndefined)) loadProps
      [(''title'', JStr ''x'')] [] []
     = ([EvCheck ''@astrojs/svelte''], Inr (Resolved (Some (throwingRenderer ''@astrojs/svelte''))))
   \<and> hydrate (buildMetadata ''Card'' (Some loadHydration)) = Some ''load''
   \<and> noClientEntrypoint (throwingRenderer ''@astrojs/svelte'')
   \<and> name (throwingRenderer ''@astrojs/svelte'') \<noteq> ''@astrojs/lit''
   \<and> renderFrameworkComponent \<lparr>renderers = [throwingRenderer ''@astrojs/svelte''], compressHTML = False\<rparr>
         sampleEnv ''Card'' (sampleComponent 1 (Marker JUndefined)) loadProps []
       = ([EvRenderSlots, EvCheck ''@astrojs/svelte'', EvRenderToStaticMarkup ''@astrojs/svelte''],
          Inl (Thrown (JsError ''boom'')))"
  by (simp add: renderFrameworkComponent_def resolveAndRender_def sampleComponent_def loadProps_def
        getProp_def sampleEnv_def sampleExtract_def loadHydration_def attempt_def call_def andThen_def
        ret_def Let_def resolveRenderer_def buildMetadata_def resolveNormal_def taggedRenderer_def
        isTagged_def markerOf_def checkRenderers_def throwingRenderer_def bareRenderer_def
        sampleRenderer_def elementFallback_def produceMarkup_def noClientEntrypoint_def)

section \<open>Fragments\<close>

lemma await_plain: "(if isPromise C then awaitComponent C else Inr C) = awaitComponent C"
  by (cases C) simp_all

text \<open>
  C8. For a component that is the Fragment, at once or once its promise resolves,
  \<^verbatim>\<open>renderComponent\<close> renders the \<^verbatim>\<open>default\<close> slot and no other, and the instance
  it returns writes the rendered content of that slot, and nothing else; when rendering
  the slot throws, the exception is thrown.
\<close>

theorem fragment_renders_default_slot:
  assumes "awaitComponent C = Inr FragmentC"
  shows "renderComponent result en dn C ps sl =
     ([EvRenderSlotToString (map_of sl ''default'')],
      case renderSlotToString en (map_of sl ''default'') of
        Inl e \<Rightarrow> Inl (Thrown e)
      | Inr content \<Rightarrow> Inr ([Text content], None))"
  using assms
  by (simp add: renderComponent_def await_plain attempt_def andThen_def renderFragmentComponent_def
        call_def ret_def split: sum.splits)

theorem fragment_renders_default_slot_witness:
  "awaitComponent (Resolving FragmentC) = Inr FragmentC
   \<and> renderComponent sampleResult sampleEnv ''Fragment'' (Resolving FragmentC) []
        [(''default'', Slot 0), (''other'', Slot 1)]
      = ([EvRenderSlotToString (Some (Slot 0))], Inr ([Text ''<p>hi</p>''], None))"
proof -
  have a: "awaitComponent (Resolving FragmentC) = Inr FragmentC" by simp
  show ?thesis
    using a fragment_renders_default_slot [OF a, of sampleResult sampleEnv "''Fragment''" "[]"
      "[(''default'', Slot 0), (''other'', Slot 1)]"]
    by (simp add: sampleEnv_def)
qed

section \<open>The string renderer\<close>

lemma collect_Cons:
  "collect en (c # cs) = (if isResponse c then [] else chunkToString en c) @ collect en cs"
  by (simp add: collect_def)

lemma foldl_write_later:
  "foldl (writeChunk result en isPage head) (str, True) cs = (str @ collect en cs, True)"
  by (induction cs arbitrary: str) (simp_all add: writeChunk_def collect_def)

lemma foldl_write_no_page:
  "foldl (writeChunk result en False head) (str, b) cs = (str @ collect en cs, b)"
  by (induction cs arbitrary: str) (simp_all add: writeChunk_def collect_def)

lemma foldl_write_first:
  "foldl (writeChunk result en True head) ([], False) (c # cs) =
     ((if doctypeTest (stringOf c) then [] else doctypeOf result @ head) @ collect en (c # cs), True)"
  by (simp add: writeChunk_def foldl_write_later collect_Cons)

text \<open>
  C9 (as amended). In \<^verbatim>\<open>renderComponentToString\<close> for a page, the string is what
  the chunks give (a Response gives nothing), after the doctype (with a line break
  unless \<^verbatim>\<open>compressHTML\<close> is set) and the head content when the first chunk, as a
  string, does not contain \<^verbatim>\<open><!doctype html\<close> in any case of its letters, and after
  nothing when it contains it; no later chunk adds anything before itself. When it is
  not a page, nothing is ever added.
\<close>

theorem first_page_chunk_doctype:
  "foldl (writeChunk result en True head) ([], False) (c # cs) =
     ((if occursIn ''<!doctype html'' (map lowerChar (stringOf c)) then []
       else (if compressHTML result then ''<!DOCTYPE html>'' else ''<!DOCTYPE html>'' @ [CHR 0x0A]) @ head)
      @ collect en (c # cs), True)
   \<and> foldl (writeChunk result en False head) ([], False) cs = (collect en cs, False)
   \<and> (renderComponent result en dn C ps sl = (t, Inr (c # cs, None)) \<longrightarrow>
        renderComponentToString result en dn C ps sl True route =
          (t, Inr ((if occursIn ''<!doctype html'' (map lowerChar (stringOf c)) then []
                    else (if compressHTML result then ''<!DOCTYPE html>''
                          else ''<!DOCTYPE html>'' @ [CHR 0x0A]) @ headOf en C)
                   @ collect en (c # cs))))"
proof (intro conjI impI)
  show "foldl (writeChunk result en True head) ([], False) (c # cs) =
     ((if occursIn ''<!doctype html'' (map lowerChar (stringOf c)) then []
       else (if compressHTML result then ''<!DOCTYPE html>'' else ''<!DOCTYPE html>'' @ [CHR 0x0A]) @ head)
      @ collect en (c # cs), True)"
    unfolding foldl_write_first doctypeTest_def includesStr_iff doctypeOf_def by simp
  show "foldl (writeChunk result en False head) ([], False) cs = (collect en cs, False)"
    by (simp add: foldl_write_no_page)
next
  assume "renderComponent result en dn C ps sl = (t, Inr (c # cs, None))"
  then have "renderComponentToString result en dn C ps sl True route =
      (t, Inr (fst (foldl (writeChunk result en True (headOf en C)) ([], False) (c # cs))))"
    by (simp add: renderComponentToString_def Let_def)
  then show "renderComponentToString result en dn C ps sl True route =
          (t, Inr ((if occursIn ''<!doctype html'' (map lowerChar (stringOf c)) then []
                    else (if compressHTML result then ''<!DOCTYPE html>''
                          else ''<!DOCTYPE html>'' @ [CHR 0x0A]) @ headOf en C)
                   @ collect en (c # cs)))"
    unfolding foldl_write_first doctypeTest_def includesStr_iff doctypeOf_def by simp
qed

theorem first_page_chunk_doctype_witness:
  "foldl (writeChunk sampleResult sampleEnv True ''<meta charset=utf-8>'') ([], False)
     [Markup ''<p>hi</p>'', ResponseChunk, Text ''<!doctype html>'']
     = (''<!DOCTYPE html>'' @ [CHR 0x0A] @ ''<meta charset=utf-8><p>hi</p><!doctype html>'', True)
   \<and> renderComponent sampleResult sampleEnv ''Page'' FragmentC [] [(''default'', Slot 0)]
       = ([EvRenderSlotToString (Some (Slot 0))], Inr ([Text ''<p>hi</p>''], None))
   \<and> renderComponentToString sampleResult sampleEnv ''Page'' FragmentC [] [(''default'', Slot 0)] True None
       = ([EvRenderSlotToString (Some (Slot 0))], Inr (''<!DOCTYPE html>'' @ [CHR 0x0A] @ ''<p>hi</p>''))"
proof -
  have no: "\<not> occursIn ''<!doctype html'' (map lowerChar (stringOf (Markup ''<p>hi</p>'')))"
    "\<not> occursIn ''<!doctype html'' (map lowerChar (stringOf (Text ''<p>hi</p>'')))"
    unfolding includesStr_iff [symmetric] by (simp_all add: lowerChar_def)
  have rc: "renderComponent sampleResult sampleEnv ''Page'' FragmentC [] [(''default'', Slot 0)]
       = ([EvRenderSlotToString (Some (Slot 0))], Inr ([Text ''<p>hi</p>''], None))"
    by (simp add: renderComponent_def attempt_def andThen_def renderFragmentComponent_def call_def
          ret_def sampleEnv_def)
  note T = first_page_chunk_doctype [of sampleResult sampleEnv]
  have f: "foldl (writeChunk sampleResult sampleEnv True ''<meta charset=utf-8>'') ([], False)
     [Markup ''<p>hi</p>'', ResponseChunk, Text ''<!doctype html>'']
     = (''<!DOCTYPE html>'' @ [CHR 0x0A] @ ''<meta charset=utf-8><p>hi</p><!doctype html>'', True)"
    using T [THEN conjunct1, of "''<meta charset=utf-8>''" "Markup ''<p>hi</p>''"
          "[ResponseChunk, Text ''<!doctype html>'']"] no
    by (simp add: collect_def sampleEnv_def sampleResult_def)
  have s: "renderComponentToString sampleResult sampleEnv ''Page'' FragmentC [] [(''default'', Slot 0)] True None
       = ([EvRenderSlotToString (Some (Slot 0))], Inr (''<!DOCTYPE html>'' @ [CHR 0x0A] @ ''<p>hi</p>''))"
    using T [THEN conjunct2, THEN conjunct2, rule_format, OF rc, of None] no
    by (simp add: collect_def sampleEnv_def sampleResult_def headOf_def nonAstroPageNeedsHeadInjection_def)
  from f rc s show ?thesis by (intro conjI)
qed


text \<open>
  C9 as stated fails: a first chunk that holds a doctype after a line break does not
  start with a doctype, and nothing is added before it.
\<close>

theorem doctype_not_at_start_counterexample:
  "\<not> startsWithDoctype (stringOf (Text (CHR 0x0A # ''<!DOCTYPE html><p>hi</p>'')))
   \<and> renderComponent sampleResult pageEnv ''Page'' FragmentC [] []
       = ([EvRenderSlotToString None], Inr ([Text (CHR 0x0A # ''<!DOCTYPE html><p>hi</p>'')], None))
   \<and> renderComponentToString sampleResult pageEnv ''Page'' FragmentC [] [] True None
       = ([EvRenderSlotToString None], Inr (CHR 0x0A # ''<!DOCTYPE html><p>hi</p>''))"
proof -
  have a: "\<not> startsWithDoctype (stringOf (Text (CHR 0x0A # ''<!DOCTYPE html><p>hi</p>'')))"
    by (simp add: startsWithDoctype_def lowerChar_def)
  have d: "doctypeTest (CHR 0x0A # ''<!DOCTYPE html><p>hi</p>'')"
    by code_simp
  have rc: "renderComponent sampleResult pageEnv ''Page'' FragmentC [] []
       = ([EvRenderSlotToString None], Inr ([Text (CHR 0x0A # ''<!DOCTYPE html><p>hi</p>'')], None))"
    by (simp add: renderComponent_def attempt_def andThen_def renderFragmentComponent_def call_def
          ret_def pageEnv_def sampleEnv_def)
  have ct: "chunkToString pageEnv (Text x) = x" for x
    by (simp add: pageEnv_def sampleEnv_def)
  have s: "renderComponentToString sampleResult pageEnv ''Page'' FragmentC [] [] True None
       = ([EvRenderSlotToString None], Inr (CHR 0x0A # ''<!DOCTYPE html><p>hi</p>''))"
    using d
    by (simp add: renderComponentToString_def rc Let_def writeChunk_def ct)
  from a rc s show ?thesis by (intro conjI)
qed

section \<open>The client:only directive and the fallback slot\<close>

lemma silent_ret: "silent (ret x)"
  by (simp add: silent_def ret_def)

lemma silent_raise: "silent (raise e)"
  by (simp add: silent_def raise_def)

lemma silent_attempt: "silent (attempt r)"
  by (simp add: silent_def attempt_def)

lemma silent_andThen:
  assumes "silent m" and "\<And>x. silent (f x)"
  shows "silent (andThen m f)"
proof (cases m)
  case (Pair t r)
  show ?thesis
  proof (cases r)
    case (Inl e)
    with Pair assms(1) show ?thesis by (simp add: silent_def andThen_def)
  next
    case (Inr x)
    with Pair assms(1) assms(2) [of x] show ?thesis
      by (cases "f x") (simp add: silent_def andThen_def)
  qed
qed

lemma silent_checkClientEntrypoint: "silent (checkClientEntrypoint dn md renderer)"
  by (simp add: checkClientEntrypoint_def silent_ret silent_raise split: option.splits)

lemma silent_renderCustomElement: "silent (renderCustomElement en C ps ch html)"
  by (cases C)
     (auto simp add: renderCustomElement_def Let_def intro!: silent_andThen silent_attempt silent_ret)

lemma silent_customElementStep: "silent (customElementStep en C ps ch html)"
  by (cases html) (simp_all add: customElementStep_def silent_renderCustomElement silent_ret)

lemma silent_renderIsland: "silent (renderIsland en md h renderer ps attrs ch si html)"
  unfolding renderIsland_def by (intro silent_andThen silent_attempt silent_ret)

lemma silent_validateAndEmit: "silent (validateAndEmit en dn C st)"
proof -
  obtain ex ch si rd where st: "st = (ex, ch, si, rd)" by (cases st) auto
  show ?thesis
  proof (cases rd)
    case (Early out)
    with st show ?thesis by (simp add: validateAndEmit_def silent_ret)
  next
    case (Rendered ro html0 attrs)
    have "silent (andThen (checkClientEntrypoint dn (buildMetadata dn (ex_hydration ex)) ro)
             (\<lambda>u. andThen (customElementStep en C (ex_props ex) ch html0)
                (\<lambda>html. case ex_hydration ex of
                     None \<Rightarrow> ret (staticChunks (ex_isPage ex) ro html si, None)
                   | Some h \<Rightarrow>
                       renderIsland en (buildMetadata dn (ex_hydration ex)) h ro (ex_props ex)
                         attrs ch si html)))"
      by (intro silent_andThen silent_checkClientEntrypoint silent_customElementStep)
         (simp add: silent_ret silent_renderIsland split: option.splits)
    with st Rendered show ?thesis by (simp add: validateAndEmit_def Let_def)
  qed
qed

lemma fst_renderFrameworkComponent:
  "fst (renderFrameworkComponent result en dn C rawProps sl)
     = fst (resolveAndRender result en dn C rawProps sl)"
proof (cases "resolveAndRender result en dn C rawProps sl")
  case (Pair t r)
  show ?thesis
  proof (cases r)
    case (Inl e)
    with Pair show ?thesis by (simp add: renderFrameworkComponent_def andThen_def)
  next
    case (Inr st)
    with Pair silent_validateAndEmit [of en dn C st] show ?thesis
      by (cases "validateAndEmit en dn C st")
         (simp add: renderFrameworkComponent_def andThen_def silent_def)
  qed
qed

lemma only_resolveAndRender:
  assumes ok: "\<not> (falsy C \<and> \<not> truthy (getProp rawProps ''client:only''))"
    and ex: "extractDirectives en rawProps = Inr ex"
    and hy: "ex_hydration ex = Some h" and only: "h_directive h = ''only''"
    and sl: "renderSlots en sl = Inr (ch, si)"
    and res: "resolveOnly (renderers result) (buildMetadata dn (Some h)) = Some r"
  shows "resolveAndRender result en dn C rawProps sl =
           ([EvRenderSlots, EvRenderSlotToString (map_of sl ''fallback'')],
            case renderSlotToString en (map_of sl ''fallback'') of
              Inl e \<Rightarrow> Inl (Thrown e)
            | Inr fb \<Rightarrow> Inr (ex, ch, si, Rendered (Some r) (SlotString fb) None))"
proof -
  let ?md = "buildMetadata dn (Some h)"
  have md: "hydrate ?md = Some ''only''" using only by (simp add: buildMetadata_def)
  have rr: "resolveRenderer result en ?md C rawProps (ex_props ex) sl ch = ret (Resolved (Some r))"
    using md res by (simp add: resolveRenderer_def)
  have pm: "produceMarkup result en ?md C (ex_props ex) sl ch (Some r) =
              andThen (call (EvRenderSlotToString (map_of sl ''fallback''))
                         (renderSlotToString en (map_of sl ''fallback'')))
                (\<lambda>html. ret (Some r, SlotString html, None))"
    using md by (simp add: produceMarkup_def)
  have inner: "andThen (resolveRenderer result en ?md C rawProps (ex_props ex) sl ch)
           (\<lambda>res. case res of
               ElementOutput output \<Rightarrow> ret (ex, ch, si, Early output)
             | Resolved renderer0 \<Rightarrow>
                 andThen (produceMarkup result en ?md C (ex_props ex) sl ch renderer0)
                   (\<lambda>(renderer, html0, attrs). ret (ex, ch, si, Rendered renderer html0 attrs)))
         = ([EvRenderSlotToString (map_of sl ''fallback'')],
            case renderSlotToString en (map_of sl ''fallback'') of
              Inl e \<Rightarrow> Inl (Thrown e)
            | Inr fb \<Rightarrow> Inr (ex, ch, si, Rendered (Some r) (SlotString fb) None))"
    unfolding rr andThen_ret
    by (simp add: pm andThen_def call_def ret_def split: sum.splits)
  have "resolveAndRender result en dn C rawProps sl =
      andThen (attempt (extractDirectives en rawProps))
        (\<lambda>ex. let md = buildMetadata dn (ex_hydration ex); ps = ex_props ex
           in andThen (call EvRenderSlots (renderSlots en sl))
                (\<lambda>(ch, slotInstructions).
                   andThen (resolveRenderer result en md C rawProps ps sl ch)
                     (\<lambda>res. case res of
                          ElementOutput output \<Rightarrow> ret (ex, ch, slotInstructions, Early output)
                        | Resolved renderer0 \<Rightarrow>
                            andThen (produceMarkup result en md C ps sl ch renderer0)
                              (\<lambda>(renderer, html0, attrs).
                                 ret (ex, ch, slotInstructions, Rendered renderer html0 attrs)))))"
    using ok unfolding resolveAndRender_def by (rule if_not_P)
  then show ?thesis
    by (simp add: andThen_attempt_Inr [OF ex] hy andThen_call_Inr [OF sl] Let_def inner)
qed

lemma unrenderedSlotsOf_content:
  "unrenderedSlotsOf renderer md html ch = unrenderedSlots renderer md (contentOf html) ch"
proof (cases html)
  case (Primitive s)
  then show ?thesis by (simp add: unrenderedSlotsOf_def unrenderedSlots_def)
next
  case (SlotString s)
  have "filter (\<lambda>key. \<not> includesStr [] (expectedHTML (slotTagName renderer md) key)) (map fst ch)
          = map fst ch"
    by (simp add: expectedHTML_def)
  with SlotString show ?thesis by (simp add: unrenderedSlotsOf_def unrenderedSlots_def)
qed

text \<open>
  C10. When the hydration directive is \<^verbatim>\<open>only\<close> and a renderer is resolved, the
  calls made are those of \<^verbatim>\<open>renderSlots\<close> and of \<^verbatim>\<open>renderSlotToString\<close> on the
  \<^verbatim>\<open>fallback\<close> slot: the renderer's \<^verbatim>\<open>renderToStaticMarkup\<close> is not called, nor
  any capability check, and \<^verbatim>\<open>html\<close> is the String object that rendering the
  fallback slot gives. The island hosts the fallback content followed by the templates
  of the unrendered slots, also for a component that is a string; with no fallback
  slot, where rendering the missing slot gives the empty string, it hosts the templates
  of all slots.
\<close>

theorem client_only_hosts_fallback:
  assumes ok: "\<not> (falsy C \<and> \<not> truthy (getProp rawProps ''client:only''))"
    and ex: "extractDirectives en rawProps = Inr ex"
    and hy: "ex_hydration ex = Some h" and only: "h_directive h = ''only''"
    and sl: "renderSlots en sl = Inr (ch, si)"
    and res: "resolveOnly (renderers result) (buildMetadata dn (Some h)) = Some r"
  shows "fst (renderFrameworkComponent result en dn C rawProps sl)
           = [EvRenderSlots, EvRenderSlotToString (map_of sl ''fallback'')]
     \<and> resolveAndRender result en dn C rawProps sl =
           ([EvRenderSlots, EvRenderSlotToString (map_of sl ''fallback'')],
            case renderSlotToString en (map_of sl ''fallback'') of
              Inl e \<Rightarrow> Inl (Thrown e)
            | Inr fb \<Rightarrow> Inr (ex, ch, si, Rendered (Some r) (SlotString fb) None))
     \<and> (renderSlotToString en (map_of sl ''fallback'') = Inr fb \<longrightarrow>
          \<not> (noClientEntrypoint r \<and> name r \<noteq> ''@astrojs/lit'') \<longrightarrow>
          astroIdFor en (buildMetadata dn (Some h)) (ex_props ex) fb = Inr astroId \<longrightarrow>
          generateHydrateScript en (Some r) astroId (ex_props ex) None (buildMetadata dn (Some h))
            = Inr isle \<longrightarrow>
          renderFrameworkComponent result en dn C rawProps sl =
            ([EvRenderSlots, EvRenderSlotToString (map_of sl ''fallback'')],
             Inr (instructionChunks si
                  @ [Instr (DirectiveInstr h),
                     Markup (renderElement en ''astro-island''
                       (hostIsland isle
                          (fb @ concat (map (\<lambda>key. inertTemplate key (childOf ch key))
                                          (unrenderedSlots (Some r) (buildMetadata dn (Some h)) fb ch)))))],
                  None)))
     \<and> (map_of sl ''fallback'' = None \<longrightarrow> renderSlotToString en None = Inr [] \<longrightarrow>
          \<not> (noClientEntrypoint r \<and> name r \<noteq> ''@astrojs/lit'') \<longrightarrow>
          astroIdFor en (buildMetadata dn (Some h)) (ex_props ex) [] = Inr astroId \<longrightarrow>
          generateHydrateScript en (Some r) astroId (ex_props ex) None (buildMetadata dn (Some h))
            = Inr isle \<longrightarrow>
          renderFrameworkComponent result en dn C rawProps sl =
            ([EvRenderSlots, EvRenderSlotToString None],
             Inr (instructionChunks si
                  @ [Instr (DirectiveInstr h),
                     Markup (renderElement en ''astro-island''
                       (hostIsland isle
                          (concat (map (\<lambda>key. inertTemplate key (childOf ch key)) (map fst ch)))))],
                  None)))"
proof -
  let ?md = "buildMetadata dn (Some h)"
  note rr0 = only_resolveAndRender [OF ok ex hy only sl res]
  have tr: "fst (renderFrameworkComponent result en dn C rawProps sl)
           = [EvRenderSlots, EvRenderSlotToString (map_of sl ''fallback'')]"
    by (simp add: fst_renderFrameworkComponent rr0)
  have main: "renderFrameworkComponent result en dn C rawProps sl =
            ([EvRenderSlots, EvRenderSlotToString (map_of sl ''fallback'')],
             Inr (instructionChunks si
                  @ [Instr (DirectiveInstr h),
                     Markup (renderElement en ''astro-island''
                       (hostIsland isle
                          (fb @ concat (map (\<lambda>key. inertTemplate key (childOf ch key))
                                          (unrenderedSlots (Some r) ?md fb ch)))))],
                  None))"
    if fb: "renderSlotToString en (map_of sl ''fallback'') = Inr fb"
      and ce: "\<not> (noClientEntrypoint r \<and> name r \<noteq> ''@astrojs/lit'')"
      and aid: "astroIdFor en ?md (ex_props ex) fb = Inr astroId"
      and gen: "generateHydrateScript en (Some r) astroId (ex_props ex) None ?md = Inr isle"
    for fb astroId isle
  proof -
    have rr: "resolveAndRender result en dn C rawProps sl =
           ([EvRenderSlots, EvRenderSlotToString (map_of sl ''fallback'')],
            Inr (ex, ch, si, Rendered (Some r) (SlotString fb) None))"
      using rr0 fb by simp
    have c1: "checkClientEntrypoint dn ?md (Some r) = ret ()"
      using ce by (auto simp add: checkClientEntrypoint_def)
    have c2: "customElementStep en C (ex_props ex) ch (SlotString fb) = ret fb"
      by (simp add: customElementStep_def)
    have c3: "renderIsland en ?md h (Some r) (ex_props ex) None ch si fb =
          ([], Inr (instructionChunks si
                    @ [Instr (DirectiveInstr h),
                       Markup (renderElement en ''astro-island''
                                 (hostIsland isle (islandChildren (Some r) ?md fb ch)))],
                    None))"
      using aid gen by (simp add: renderIsland_def attempt_def andThen_def ret_def)
    have ve: "validateAndEmit en dn C (ex, ch, si, Rendered (Some r) (SlotString fb) None) =
          ([], Inr (instructionChunks si
                    @ [Instr (DirectiveInstr h),
                       Markup (renderElement en ''astro-island''
                                 (hostIsland isle (islandChildren (Some r) ?md fb ch)))],
                    None))"
      by (simp add: validateAndEmit_def hy Let_def c1 c2 andThen_ret c3)
    show ?thesis
      by (simp add: renderFrameworkComponent_def rr ve andThen_def islandChildren_def
            slotTemplate_inert)
  qed
  have none: "renderFrameworkComponent result en dn C rawProps sl =
            ([EvRenderSlots, EvRenderSlotToString None],
             Inr (instructionChunks si
                  @ [Instr (DirectiveInstr h),
                     Markup (renderElement en ''astro-island''
                       (hostIsland isle
                          (concat (map (\<lambda>key. inertTemplate key (childOf ch key)) (map fst ch)))))],
                  None))"
    if nf: "map_of sl ''fallback'' = None" and em: "renderSlotToString en None = Inr []"
      and ce: "\<not> (noClientEntrypoint r \<and> name r \<noteq> ''@astrojs/lit'')"
      and aid: "astroIdFor en ?md (ex_props ex) [] = Inr astroId"
      and gen: "generateHydrateScript en (Some r) astroId (ex_props ex) None ?md = Inr isle"
    for astroId isle
  proof -
    have fb: "renderSlotToString en (map_of sl ''fallback'') = Inr []" using nf em by simp
    have u: "unrenderedSlots (Some r) ?md [] ch = map fst ch" by (simp add: unrenderedSlots_def)
    show ?thesis using main [OF fb ce aid gen] nf u by simp
  qed
  from tr rr0 main none show ?thesis by blast
qed

lemma sample_only_extract:
  "extractDirectives sampleEnv onlyProps
     = Inr \<lparr>ex_hydration = Some (onlyHydration (JStr ''vue'') ''/src/Card.vue''), ex_isPage = False,
            ex_props = [(''class'', JStr ''x'')]\<rparr>"
  by (simp add: sampleEnv_def sampleExtract_def onlyProps_def onlyHydration_def getProp_def)

lemma sample_only_resolve:
  "resolveOnly (renderers sampleResult) (buildMetadata dn (Some (onlyHydration (JStr ''vue'') ''/src/Card.vue'')))
     = Some (sampleRenderer ''@astrojs/vue'' vueCheck)"
  by (simp add: resolveOnly_def passedRenderer_def buildMetadata_def onlyHydration_def rendererAliases_def
        sampleResult_def sampleRenderer_def)

theorem client_only_hosts_fallback_witness:
  "renderFrameworkComponent sampleResult sampleEnv ''Card'' Nullish onlyProps [(''fallback'', Slot 0)]
     = ([EvRenderSlots, EvRenderSlotToString (Some (Slot 0))],
        Inr ([Instr (DirectiveInstr (onlyHydration (JStr ''vue'') ''/src/Card.vue'')),
              Markup (''<astro-island><p>hi</p><template data-astro-template='' @ [CHR 0x22]
                      @ ''fallback'' @ [CHR 0x22] @ ''><i>fallback</i></template></astro-island>'')],
             None))
   \<and> renderFrameworkComponent sampleResult sampleEnv ''my-el'' (Str ''my-el'') onlyProps []
     = ([EvRenderSlots, EvRenderSlotToString None],
        Inr ([Instr (DirectiveInstr (onlyHydration (JStr ''vue'') ''/src/Card.vue'')),
              Markup ''<astro-island></astro-island>''],
             None))"
proof -
  let ?h = "onlyHydration (JStr ''vue'') ''/src/Card.vue''"
  let ?ex = "\<lparr>ex_hydration = Some ?h, ex_isPage = False, ex_props = [(''class'', JStr ''x'')]\<rparr>"
  let ?r = "sampleRenderer ''@astrojs/vue'' vueCheck"
  have ok: "\<not> (falsy Nullish \<and> \<not> truthy (getProp onlyProps ''client:only''))"
    by (simp add: getProp_def onlyProps_def)
  have ok2: "\<not> (falsy (Str ''my-el'') \<and> \<not> truthy (getProp onlyProps ''client:only''))"
    by simp
  have hy: "ex_hydration ?ex = Some ?h" by simp
  have only: "h_directive ?h = ''only''" by (simp add: onlyHydration_def)
  have sl: "renderSlots sampleEnv [(''fallback'', Slot 0)] = Inr ([(''fallback'', ''<i>fallback</i>'')], None)"
    by (simp add: sampleEnv_def)
  have sl2: "renderSlots sampleEnv [] = Inr ([], None)" by (simp add: sampleEnv_def)
  have fb: "renderSlotToString sampleEnv (map_of [(''fallback'', Slot 0)] ''fallback'') = Inr ''<p>hi</p>''"
    by (simp add: sampleEnv_def)
  have nf: "map_of ([] :: slots) ''fallback'' = None" by simp
  have em: "renderSlotToString sampleEnv None = Inr []" by (simp add: sampleEnv_def)
  have ce: "\<not> (noClientEntrypoint ?r \<and> name ?r \<noteq> ''@astrojs/lit'')"
    by (simp add: noClientEntrypoint_def sampleRenderer_def)
  have aid: "astroIdFor sampleEnv (buildMetadata dn (Some ?h)) (ex_props ?ex) html = Inr '';x=ssalc''"
    for dn html
    by (simp add: astroIdFor_def astroIdOf_def sampleEnv_def buildMetadata_def onlyHydration_def)
  have gen: "generateHydrateScript sampleEnv (Some ?r) '';x=ssalc'' (ex_props ?ex) None
               (buildMetadata dn (Some ?h))
               = Inr \<lparr>island_props = [(''uid'', '';x=ssalc'')], island_children = []\<rparr>" for dn
    by (simp add: sampleEnv_def)
  have un: "unrenderedSlots (Some ?r) (buildMetadata ''Card'' (Some ?h)) ''<p>hi</p>''
              [(''fallback'', ''<i>fallback</i>'')] = [''fallback'']"
    by (simp add: unrenderedSlots_def expectedHTML_def slotTagName_def supportsStatic_def
          sampleRenderer_def hydrateSet_def buildMetadata_def onlyHydration_def)
  note T1 = client_only_hosts_fallback [OF ok sample_only_extract hy only sl sample_only_resolve,
      THEN conjunct2, THEN conjunct2, THEN conjunct1, rule_format, OF fb ce aid gen]
  note T2 = client_only_hosts_fallback [OF ok2 sample_only_extract hy only sl2 sample_only_resolve,
      THEN conjunct2, THEN conjunct2, THEN conjunct2, rule_format, OF nf em ce aid gen]
  have r1: "renderFrameworkComponent sampleResult sampleEnv ''Card'' Nullish onlyProps [(''fallback'', Slot 0)]
     = ([EvRenderSlots, EvRenderSlotToString (Some (Slot 0))],
        Inr ([Instr (DirectiveInstr ?h),
              Markup (''<astro-island><p>hi</p><template data-astro-template='' @ [CHR 0x22]
                      @ ''fallback'' @ [CHR 0x22] @ ''><i>fallback</i></template></astro-island>'')],
             None))"
    using T1
    by (simp add: un instructionChunks_def inertTemplate_def childOf_def hostIsland_def sampleEnv_def)
  have r2: "renderFrameworkComponent sampleResult sampleEnv ''my-el'' (Str ''my-el'') onlyProps []
     = ([EvRenderSlots, EvRenderSlotToString None],
        Inr ([Instr (DirectiveInstr ?h), Markup ''<astro-island></astro-island>''], None))"
    using T2 by (simp add: instructionChunks_def hostIsland_def sampleEnv_def)
  from r1 r2 show ?thesis by (rule conjI)
qed

end
